theory Spec2Isabelle
  imports Complex_Main
begin

section \<open>JavaScript numbers\<close>

text \<open>
  The program is TypeScript. Its \<^verbatim>\<open>number\<close> values are modelled as \<^typ>\<open>real\<close>, and as
  \<^typ>\<open>int\<close> where the program only ever uses them as counters, indices or step numbers.
  Rounding of IEEE-754 doubles is not part of the model. Where a division by zero of the
  source reaches the modelled state, the model says what JavaScript yields there
  (\<^verbatim>\<open>Infinity\<close> or \<^verbatim>\<open>NaN\<close>) instead of using the value HOL gives to \<open>x / 0\<close>.
\<close>

definition jsRem :: "int \<Rightarrow> int \<Rightarrow> int" where
  \<comment> \<open>The \<^verbatim>\<open>%\<close> operator on integers: the remainder takes the sign of the dividend.
      The divisor is non-zero wherever the model uses it.\<close>
  "jsRem a b = sgn a * (\<bar>a\<bar> mod \<bar>b\<bar>)"

section \<open>utils/math.ts: the Euclidean rhythm gate\<close>

definition checkEuclideanStep :: "int \<Rightarrow> int \<Rightarrow> int \<Rightarrow> bool" where
  "checkEuclideanStep step hits totalSteps =
     (if totalSteps = 0 then False
      else jsRem (step * hits) totalSteps < hits)"

section \<open>utils/math.ts: vectors\<close>

record Vector2 =
  x :: real
  y :: real

definition vec :: "real \<Rightarrow> real \<Rightarrow> Vector2" where
  "vec a b = \<lparr>x = a, y = b\<rparr>"

definition add :: "Vector2 \<Rightarrow> Vector2 \<Rightarrow> Vector2" where
  "add v1 v2 = \<lparr>x = x v1 + x v2, y = y v1 + y v2\<rparr>"

definition sub :: "Vector2 \<Rightarrow> Vector2 \<Rightarrow> Vector2" where
  "sub v1 v2 = \<lparr>x = x v1 - x v2, y = y v1 - y v2\<rparr>"

definition mult :: "Vector2 \<Rightarrow> real \<Rightarrow> Vector2" where
  "mult v s = \<lparr>x = x v * s, y = y v * s\<rparr>"

definition dot :: "Vector2 \<Rightarrow> Vector2 \<Rightarrow> real" where
  "dot v1 v2 = x v1 * x v2 + y v1 * y v2"

definition mag :: "Vector2 \<Rightarrow> real" where
  "mag v = sqrt (x v * x v + y v * y v)"

definition normalize :: "Vector2 \<Rightarrow> Vector2" where
  "normalize v = (let m = mag v in
     if m = 0 then \<lparr>x = 0, y = 0\<rparr> else \<lparr>x = x v / m, y = y v / m\<rparr>)"

definition limitVector :: "Vector2 \<Rightarrow> real \<Rightarrow> Vector2" where
  "limitVector v limit = (let m = mag v in
     if m > limit \<and> m > 0 then mult v (limit / m) else v)"

definition generatePolygon :: "int \<Rightarrow> real \<Rightarrow> Vector2 \<Rightarrow> real \<Rightarrow> Vector2 list" where
  \<comment> \<open>The loop \<^verbatim>\<open>for (i = 0; i < sides; i++)\<close> pushes one vertex per \<open>i\<close>; it does not run
      when \<open>sides \<le> 0\<close>.\<close>
  "generatePolygon sides radius center rotation =
     map (\<lambda>i. let angle = (real i * 2 * pi) / real_of_int sides + rotation in
            \<lparr>x = x center + radius * cos angle, y = y center + radius * sin angle\<rparr>)
         [0..<nat sides]"

definition generateStar :: "int \<Rightarrow> real \<Rightarrow> real \<Rightarrow> Vector2 \<Rightarrow> real \<Rightarrow> Vector2 list" where
  "generateStar points outerRadius innerRadius center rotation =
     map (\<lambda>i. let angle = (real i * pi) / real_of_int points + rotation;
                radius = (if i mod 2 = 0 then outerRadius else innerRadius) in
            \<lparr>x = x center + radius * cos angle, y = y center + radius * sin angle\<rparr>)
         [0..<nat (points * 2)]"

subsection \<open>The Lorenz attractor\<close>

record LorenzAttractor =
  lx :: real
  ly :: real
  lz :: real
  dt :: real
  sigma :: real
  rho :: real
  beta :: real

definition newLorenzAttractor :: LorenzAttractor where
  "newLorenzAttractor = \<lparr>lx = 0.1, ly = 0, lz = 0, dt = 0.005, sigma = 10, rho = 28, beta = 8 / 3\<rparr>"

definition lorenzUpdate :: "LorenzAttractor \<Rightarrow> LorenzAttractor" where
  \<comment> \<open>\<^verbatim>\<open>update()\<close>: one Euler step; the returned triple is the new \<open>(lx, ly, lz)\<close>.\<close>
  "lorenzUpdate a =
     (let dx = sigma a * (ly a - lx a);
          dy = lx a * (rho a - lz a) - ly a;
          dz = lx a * ly a - beta a * lz a
      in a\<lparr>lx := lx a + dx * dt a, ly := ly a + dy * dt a, lz := lz a + dz * dt a\<rparr>)"

section \<open>utils/music.ts: scales and frequencies\<close>

datatype RootKey = C | Cs | D | Ds | E | F | Fs | G | Gs | A | As | B

datatype MusicalScale =
  Major | Minor | Pentatonic | Chromatic | Dorian | Lydian | Phrygian | Harmonics

fun rootIndexOf :: "RootKey \<Rightarrow> int" where
  \<comment> \<open>\<^verbatim>\<open>NOTES.indexOf(root)\<close> for the twelve note names in the order of \<^verbatim>\<open>NOTES\<close>.\<close>
  "rootIndexOf C = 0" | "rootIndexOf Cs = 1" | "rootIndexOf D = 2" | "rootIndexOf Ds = 3"
| "rootIndexOf E = 4" | "rootIndexOf F = 5" | "rootIndexOf Fs = 6" | "rootIndexOf G = 7"
| "rootIndexOf Gs = 8" | "rootIndexOf A = 9" | "rootIndexOf As = 10" | "rootIndexOf B = 11"

fun SCALES :: "MusicalScale \<Rightarrow> int list" where
  "SCALES Chromatic = [0, 1, 2, 3, 4, 5, 6, 7, 8, 9, 10, 11]"
| "SCALES Major = [0, 2, 4, 5, 7, 9, 11]"
| "SCALES Minor = [0, 2, 3, 5, 7, 8, 10]"
| "SCALES Pentatonic = [0, 3, 5, 7, 10]"
| "SCALES Dorian = [0, 2, 3, 5, 7, 9, 10]"
| "SCALES Lydian = [0, 2, 4, 6, 7, 9, 11]"
| "SCALES Phrygian = [0, 1, 3, 5, 7, 8, 10]"
| "SCALES Harmonics = []"

definition BASE_A4 :: real where
  "BASE_A4 = 440"

definition getFrequency :: "int \<Rightarrow> real \<Rightarrow> real" where
  "getFrequency noteIndex baseOctave =
     (let baseMidi = (baseOctave + 1) * 12;
          targetMidi = baseMidi + real_of_int noteIndex
      in BASE_A4 * 2 powr ((targetMidi - 69) / 12))"

definition getFrequencyFromScale ::
  "RootKey \<Rightarrow> MusicalScale \<Rightarrow> real \<Rightarrow> int \<Rightarrow> real \<Rightarrow> real \<Rightarrow> real" where
  \<comment> \<open>The last argument is the value \<^verbatim>\<open>Math.random()\<close> returns if the drift branch draws it.
      The scale degree is an integer, as at every call site (\<^verbatim>\<open>Math.round\<close> is then the
      identity). In the table branch the interval list is non-empty and the index is in
      range.\<close>
  "getFrequencyFromScale rootKey scale baseOctave scaleDegree drift rnd =
     (let rootIndex = rootIndexOf rootKey;
          rootFreq = getFrequency rootIndex baseOctave;
          targetFreq =
            (if scale = Harmonics then
               (let n = \<bar>scaleDegree\<bar> + 1 in rootFreq * real_of_int n)
             else
               (let intervals = SCALES scale;
                    len = int (length intervals);
                    octaveOffset = scaleDegree div len;
                    intervalIndex = jsRem scaleDegree len;
                    safeIntervalIndex = (if intervalIndex < 0 then len + intervalIndex else intervalIndex);
                    semitonesFromRoot = intervals ! nat safeIntervalIndex;
                    rootMidi = (baseOctave + 1) * 12 + real_of_int rootIndex;
                    targetMidi = rootMidi + real_of_int (octaveOffset * 12) + real_of_int semitonesFromRoot
                in BASE_A4 * 2 powr ((targetMidi - 69) / 12)))
      in if drift > 0 then
           (let cents = (rnd - 0.5) * 2 * (drift * 100) in targetFreq * 2 powr (cents / 1200))
         else targetFreq)"

section \<open>types.ts: configuration records\<close>

text \<open>
  An optional field (\<^verbatim>\<open>field?: T\<close>) is a field of type \<open>T option\<close>, with \<open>None\<close> for
  \<^verbatim>\<open>undefined\<close>. Field names are global in a theory, so a name that two interfaces share,
  or that is a constant of HOL, carries a prefix in all but one of them:
  \<^verbatim>\<open>SimulationConfig.id/name\<close> are \<open>cfgId\<close>/\<open>cfgName\<close>, \<^verbatim>\<open>SoundPatch.id/name/themeColor\<close> are
  \<open>patchId\<close>/\<open>patchName\<close>/\<open>patchThemeColor\<close>, \<^verbatim>\<open>FlockConfig.color\<close> is \<open>flockColor\<close>.
  Constructors that two union types share are told apart the same way.
\<close>

datatype Personality = Caged | Free | Chaotic | Lazy | Aggressive

record FlockConfig =
  enabled :: bool
  boidCount :: int
  perceptionRadius :: real
  maxForce :: real
  maxSpeed :: real
  separationWeight :: real
  alignmentWeight :: real
  cohesionWeight :: real
  flockColor :: string
  personality :: Personality
  euclideanHits :: int
  euclideanSteps :: int

datatype ShapeType =
  TriangleShape | SquareShape | PentagonShape | HexagonShape | OctagonShape | StarShape

datatype SoundWaveform = Sine | Square | Sawtooth | Triangle

datatype DrumType = Drum808 | Drum909 | DrumGlitch

datatype SourceType = Synth | Sampler | Physical | Granular

datatype BiquadFilterType =
  Lowpass | Highpass | Bandpass | Lowshelf | Highshelf | Peaking | Notch | Allpass

record AudioBuffer =
  duration :: real

record InstrumentConfig =
  sourceType :: "SourceType option"
  sampleBuffer :: "AudioBuffer option"
  sampleUrl :: "string option"
  soundId :: "string option"
  waveform :: SoundWaveform
  baseOctave :: real
  timbre :: "real option"
  time :: "real option"
  color :: "real option"
  drive :: "real option"
  chaos :: "real option"
  probability :: "real option"
  detuneAmount :: "real option"
  subLevel :: "real option"
  noiseLevel :: "real option"
  damping :: "real option"
  tension :: "real option"
  grainSize :: "real option"
  grainJitter :: "real option"
  wobbleAmount :: "real option"
  wobbleSpeed :: "real option"
  spatialMod :: "bool option"
  drumType :: "DrumType option"
  attack :: real
  decay :: real
  sustain :: real
  release :: real
  vol :: real
  pan :: real
  filterType :: "BiquadFilterType option"
  filterFreq :: "real option"
  filterQ :: "real option"
  bitCrush :: "real option"
  downSample :: "real option"

datatype SoundCategory =
  Analog | Digital | Atmosphere | Percussion | CatGranular | Acid | Organic | Chord
  | CatGlitch | Voice | Noise | Cinematic | Retro

record SoundPatch =
  patchId :: string
  patchName :: string
  category :: SoundCategory
  patchThemeColor :: string
  config :: InstrumentConfig

record SimulationConfig =
  cfgId :: int
  cfgName :: string
  shapeType :: ShapeType
  vertexCount :: int
  gravity :: real
  friction :: real
  restitution :: real
  rotationSpeed :: real
  ballCount :: real
  ballSize :: real
  initialSpeed :: real
  description :: string
  instrument :: InstrumentConfig
  themeColor :: string
  flock :: FlockConfig

datatype MouseForceMode = Attract | Repel

record GlobalSettings =
  timeScale :: real
  gravityMultiplier :: real
  rotationMultiplier :: real
  rootKey :: RootKey
  scale :: MusicalScale
  globalReverb :: real
  globalFilter :: real
  globalDelay :: real
  isPlaying :: bool
  mouseForceMode :: MouseForceMode
  bpm :: real
  droneEnabled :: bool
  droneVolume :: real
  noiseEnabled :: bool
  noiseVolume :: real
  gravityLfoEnabled :: bool
  gravityLfoRate :: real
  lofiLevel :: "real option"
  analogDrift :: real
  chaosEnabled :: bool

section \<open>utils/soundLibrary.ts: the patch library\<close>

definition patchDefaults :: InstrumentConfig where
  \<comment> \<open>The defaults that \<^verbatim>\<open>createPatch\<close> spreads under the patch's own fields.\<close>
  "patchDefaults = \<lparr>
     sourceType = Some Synth, sampleBuffer = None, sampleUrl = None, soundId = None,
     waveform = Sine, baseOctave = 4,
     timbre = Some 0.5, time = Some 0.5, color = Some 0.5, drive = Some 0, chaos = None,
     probability = Some 1,
     detuneAmount = None, subLevel = None, noiseLevel = None, damping = None, tension = None,
     grainSize = None, grainJitter = None, wobbleAmount = None, wobbleSpeed = None,
     spatialMod = None, drumType = None,
     attack = 0.01, decay = 0.2, sustain = 0.3, release = 0.5, vol = 1, pan = 0,
     filterType = Some Lowpass, filterFreq = Some 1000, filterQ = None,
     bitCrush = None, downSample = None\<rparr>"

definition createPatch ::
  "string \<Rightarrow> string \<Rightarrow> SoundCategory \<Rightarrow> string \<Rightarrow> (InstrumentConfig \<Rightarrow> InstrumentConfig)
   \<Rightarrow> SoundPatch" where
  \<comment> \<open>The partial configuration of the source is the function that writes its fields over
      the defaults (\<^verbatim>\<open>{ ...defaults, ...config }\<close>).\<close>
  "createPatch pid pname cat col partialConfig =
     \<lparr>patchId = pid, patchName = pname, category = cat, patchThemeColor = col,
      config = partialConfig patchDefaults\<rparr>"

definition SOUND_LIBRARY :: "SoundPatch list" where
  "SOUND_LIBRARY = [
   createPatch ''ana_bass'' ''Moog Sub'' Analog ''#e11d48'' (\<lambda>c. c\<lparr>
       waveform := Sawtooth, baseOctave := 2, attack := 0.02, decay := 0.3, sustain := 0.8,
       release := 0.4, detuneAmount := Some 10, subLevel := Some 1,
       filterType := Some Lowpass, filterFreq := Some 400, filterQ := Some 1,
       timbre := Some 0.6, color := Some 0.3, vol := 1.2\<rparr>),
   createPatch ''ana_brass'' ''Prophet Brass'' Analog ''#d97706'' (\<lambda>c. c\<lparr>
       waveform := Sawtooth, baseOctave := 3, attack := 0.15, decay := 0.4, sustain := 0.5,
       release := 1.2, detuneAmount := Some 15, filterType := Some Lowpass,
       filterFreq := Some 1200, color := Some 0.7, vol := 0.9\<rparr>),
   createPatch ''ana_lead'' ''Vintage Lead'' Analog ''#f59e0b'' (\<lambda>c. c\<lparr>
       waveform := Square, baseOctave := 4, attack := 0.01, decay := 0.2, sustain := 0.4,
       release := 0.3, detuneAmount := Some 5, wobbleAmount := Some 0.4,
       wobbleSpeed := Some 8, filterType := Some Lowpass, filterFreq := Some 2000,
       color := Some 0.8, vol := 0.8\<rparr>),
   createPatch ''acd_sq'' ''Acid Squall'' Acid ''#84cc16'' (\<lambda>c. c\<lparr>
       waveform := Sawtooth, baseOctave := 2, attack := 0.01, decay := 0.3, sustain := 0.2,
       release := 0.1, filterType := Some Lowpass, filterFreq := Some 800,
       filterQ := Some 8, timbre := Some 0.9, color := Some 0.6, drive := Some 0.5,
       vol := 0.9\<rparr>),
   createPatch ''acd_tox'' ''Toxic 303'' Acid ''#a3e635'' (\<lambda>c. c\<lparr>
       waveform := Square, baseOctave := 3, attack := 0.01, decay := 0.2, sustain := 0,
       release := 0.2, filterType := Some Lowpass, filterFreq := Some 1200,
       filterQ := Some 6, color := Some 0.8, drive := Some 0.6, vol := 0.9\<rparr>),
   createPatch ''org_scrap'' ''Scrap Metal'' Organic ''#78716c'' (\<lambda>c. c\<lparr>
       waveform := Triangle, baseOctave := 3, attack := 0.005, decay := 0.15, sustain := 0,
       release := 0.3, detuneAmount := Some 0, filterType := Some Lowpass,
       filterFreq := Some 1200, timbre := Some 1, wobbleAmount := Some 0.2,
       color := Some 0.7, drive := Some 0.4, vol := 1.1\<rparr>),
   createPatch ''org_wood'' ''Bamboo'' Organic ''#a8a29e'' (\<lambda>c. c\<lparr>
       waveform := Sine, baseOctave := 4, attack := 0.005, decay := 0.1, sustain := 0,
       release := 0.1, filterType := Some Lowpass, filterFreq := Some 1500, vol := 1,
       color := Some 0.4\<rparr>),
   createPatch ''org_hydro'' ''Hydro Phone'' Organic ''#0ea5e9'' (\<lambda>c. c\<lparr>
       waveform := Triangle, baseOctave := 4, attack := 0.05, decay := 0.3, sustain := 0.3,
       release := 0.6, filterType := Some Bandpass, filterFreq := Some 800,
       wobbleAmount := Some 0.5, wobbleSpeed := Some 4, color := Some 0.5, vol := 0.9\<rparr>),
   createPatch ''chd_dub'' ''Dub Minor'' Chord ''#6366f1'' (\<lambda>c. c\<lparr>
       waveform := Sawtooth, baseOctave := 3, attack := 0.02, decay := 0.4, sustain := 0.5,
       release := 1.5, detuneAmount := Some 5, filterType := Some Lowpass,
       filterFreq := Some 600, time := Some 0.8, color := Some 0.4, vol := 0.9\<rparr>),
   createPatch ''chd_rave'' ''Rave Stack'' Chord ''#ec4899'' (\<lambda>c. c\<lparr>
       waveform := Sawtooth, baseOctave := 4, attack := 0.01, decay := 0.3, sustain := 0.4,
       release := 0.4, detuneAmount := Some 20, filterType := Some Lowpass,
       filterFreq := Some 2000, color := Some 0.8, drive := Some 0.2, vol := 0.8\<rparr>),
   createPatch ''voc_choir'' ''Cyber Choir'' Voice ''#2dd4bf'' (\<lambda>c. c\<lparr>
       waveform := Triangle, baseOctave := 4, attack := 0.4, decay := 0.6, sustain := 0.7,
       release := 1, detuneAmount := Some 15, filterType := Some Lowpass,
       filterFreq := Some 1500, wobbleAmount := Some 0.1, time := Some 0.8,
       color := Some 0.6, vol := 0.9\<rparr>),
   createPatch ''voc_robot'' ''AI Speech'' Voice ''#14b8a6'' (\<lambda>c. c\<lparr>
       waveform := Sawtooth, baseOctave := 3, attack := 0.05, decay := 0.2, sustain := 0.4,
       release := 0.3, bitCrush := Some 0.4, filterType := Some Lowpass,
       filterFreq := Some 2000, wobbleAmount := Some 0.8, wobbleSpeed := Some 15,
       drive := Some 0.5, color := Some 0.6, vol := 1\<rparr>),
   createPatch ''cin_braam'' ''Braam Hit'' Cinematic ''#be123c'' (\<lambda>c. c\<lparr>
       waveform := Sawtooth, baseOctave := 2, attack := 0.01, decay := 0.5, sustain := 0.5,
       release := 1.5, detuneAmount := Some 25, filterType := Some Lowpass,
       filterFreq := Some 800, drive := Some 0.7, timbre := Some 0.8, color := Some 0.3,
       vol := 1\<rparr>),
   createPatch ''cin_swarm'' ''Horror Bow'' Cinematic ''#9f1239'' (\<lambda>c. c\<lparr>
       waveform := Sawtooth, baseOctave := 5, attack := 0.2, decay := 1.5, sustain := 0.8,
       release := 2, detuneAmount := Some 35, filterType := Some Lowpass,
       filterFreq := Some 2000, wobbleAmount := Some 0.4, time := Some 0.9,
       color := Some 0.7, vol := 0.8\<rparr>),
   createPatch ''nse_static'' ''High Voltage'' Noise ''#a1a1aa'' (\<lambda>c. c\<lparr>
       waveform := Square, baseOctave := 5, attack := 0.01, decay := 0.15, sustain := 0.1,
       release := 0.2, bitCrush := Some 0.8, filterType := Some Lowpass,
       filterFreq := Some 4000, wobbleAmount := Some 1, drive := Some 0.8,
       color := Some 0.6, vol := 1\<rparr>),
   createPatch ''nse_geiger'' ''Geiger'' Noise ''#52525b'' (\<lambda>c. c\<lparr>
       waveform := Square, baseOctave := 6, attack := 0.001, decay := 0.03, sustain := 0,
       release := 0.05, filterType := Some Lowpass, filterFreq := Some 5000,
       drive := Some 1, vol := 1.2, color := Some 0.9\<rparr>),
   createPatch ''ret_jump'' ''Game Jump'' Retro ''#fbbf24'' (\<lambda>c. c\<lparr>
       waveform := Square, baseOctave := 4, attack := 0.001, decay := 0.2, sustain := 0,
       release := 0.2, filterType := Some Lowpass, filterFreq := Some 3000,
       bitCrush := Some 0.6, drive := Some 0.3, color := Some 0.8, vol := 0.9\<rparr>),
   createPatch ''dig_bell'' ''Ice Bell'' Digital ''#06b6d4'' (\<lambda>c. c\<lparr>
       waveform := Sine, baseOctave := 5, attack := 0.01, decay := 0.4, sustain := 0.1,
       release := 1.5, detuneAmount := Some 5, filterType := Some Lowpass,
       filterFreq := Some 3000, bitCrush := Some 0.2, timbre := Some 0.4,
       color := Some 0.8, vol := 0.8\<rparr>),
   createPatch ''dig_keys'' ''FM Keys'' Digital ''#3b82f6'' (\<lambda>c. c\<lparr>
       waveform := Sine, baseOctave := 4, attack := 0.02, decay := 0.2, sustain := 0.4,
       release := 0.6, detuneAmount := Some 50, subLevel := Some 0,
       filterType := Some Lowpass, filterFreq := Some 2500, wobbleAmount := Some 0.2,
       timbre := Some 0.8, color := Some 0.7, vol := 0.9\<rparr>),
   createPatch ''dig_rot'' ''Bit Rot'' CatGlitch ''#6366f1'' (\<lambda>c. c\<lparr>
       waveform := Sawtooth, baseOctave := 2, attack := 0.01, decay := 0.1, sustain := 0.2,
       release := 0.1, bitCrush := Some 0.8, downSample := Some 0.6,
       filterType := Some Lowpass, filterFreq := Some 1500, wobbleAmount := Some 0.5,
       timbre := Some 0.9, drive := Some 0.8, vol := 1\<rparr>),
   createPatch ''dig_err'' ''Server Crash'' CatGlitch ''#ef4444'' (\<lambda>c. c\<lparr>
       waveform := Square, baseOctave := 4, attack := 0.001, decay := 0.1, sustain := 0,
       release := 0.1, bitCrush := Some 0.9, filterType := Some Lowpass,
       filterFreq := Some 3000, vol := 0.9, color := Some 0.9, drive := Some 0.9\<rparr>),
   createPatch ''dig_chime'' ''Prism'' Digital ''#d8b4fe'' (\<lambda>c. c\<lparr>
       waveform := Sine, baseOctave := 6, attack := 0.01, decay := 0.3, sustain := 0,
       release := 0.8, vol := 0.8, color := Some 0.8, filterType := Some Lowpass,
       filterFreq := Some 4000\<rparr>),
   createPatch ''dig_glitch'' ''Data Rot'' CatGlitch ''#6366f1'' (\<lambda>c. c\<lparr>
       waveform := Sawtooth, baseOctave := 3, attack := 0.01, decay := 0.1, sustain := 0,
       release := 0.1, bitCrush := Some 0.9, downSample := Some 0.8, vol := 0.9,
       drive := Some 0.8, filterType := Some Lowpass, filterFreq := Some 2000\<rparr>),
   createPatch ''grn_cloud'' ''Cloud Tex'' CatGranular ''#10b981'' (\<lambda>c. c\<lparr>
       sourceType := Some Granular, waveform := Sine, baseOctave := 4, attack := 0.5,
       decay := 0.5, sustain := 0.5, release := 0.5, grainSize := Some 0.2,
       grainJitter := Some 0.3, vol := 0.8, timbre := Some 0.5, color := Some 0.5\<rparr>),
   createPatch ''grn_time'' ''Time Stretch'' CatGranular ''#34d399'' (\<lambda>c. c\<lparr>
       sourceType := Some Granular, waveform := Sawtooth, baseOctave := 3, attack := 0.1,
       decay := 0.2, sustain := 0.4, release := 0.4, grainSize := Some 0.05,
       grainJitter := Some 0.1, vol := 0.7, timbre := Some 0.8, color := Some 0.7\<rparr>),
   createPatch ''atm_nebula'' ''Nebula Pad'' Atmosphere ''#8b5cf6'' (\<lambda>c. c\<lparr>
       waveform := Sawtooth, baseOctave := 2, attack := 0.05, decay := 2, sustain := 1,
       release := 2.5, detuneAmount := Some 20, filterType := Some Lowpass,
       filterFreq := Some 600, spatialMod := Some True, vol := 0.8, time := Some 0.9,
       color := Some 0.4\<rparr>),
   createPatch ''atm_deep'' ''Deep Space'' Atmosphere ''#4c1d95'' (\<lambda>c. c\<lparr>
       waveform := Sine, baseOctave := 1, attack := 0.1, decay := 1, sustain := 1,
       release := 3, subLevel := Some 1, filterType := Some Lowpass,
       filterFreq := Some 300, vol := 0.7, timbre := Some 0.2, color := Some 0.2\<rparr>),
   createPatch ''prc_kick'' ''808 Sub'' Percussion ''#be123c'' (\<lambda>c. c\<lparr>
       sourceType := Some Synth, drumType := Some Drum808, waveform := Sine,
       baseOctave := 2, attack := 0.005, decay := 0.4, sustain := 0, release := 0.1,
       vol := 1.5, filterType := Some Lowpass, filterFreq := Some 400, time := Some 0.3,
       color := Some 0.3\<rparr>),
   createPatch ''prc_click'' ''Static Click'' Percussion ''#94a3b8'' (\<lambda>c. c\<lparr>
       sourceType := Some Synth, drumType := Some DrumGlitch, waveform := Square,
       baseOctave := 6, attack := 0.001, decay := 0.05, sustain := 0, release := 0.05,
       filterType := Some Lowpass, filterFreq := Some 4000, color := Some 0.8,
       drive := Some 0.5, vol := 1.2\<rparr>),
   createPatch ''prc_wood'' ''Log Drum'' Percussion ''#78350f'' (\<lambda>c. c\<lparr>
       waveform := Sine, baseOctave := 3, attack := 0.01, decay := 0.1, sustain := 0,
       release := 0.1, filterType := Some Lowpass, filterFreq := Some 600,
       detuneAmount := Some 15, color := Some 0.5, vol := 1\<rparr>)]"

section \<open>utils/audio.ts: the audio engine\<close>

text \<open>
  The engine is modelled by the fields its trigger and parameter methods read and write.
  A Web Audio node that may be \<^verbatim>\<open>null\<close> is a \<open>bool\<close> (the node exists), or, when one of its
  parameters is set by a modelled method, the \<open>option\<close> of that parameter's target value.
  A sounding voice is an entry of \<open>voices\<close>: the voices whose \<^verbatim>\<open>onended\<close> callback has not run
  yet. The nodes of a voice are represented by its kind, its source frequency and its peak
  gain; pan positions and send levels are not kept. Web Audio calls are taken not to throw.
  The engine field \<^verbatim>\<open>bpm\<close> is \<open>engineBpm\<close>.
\<close>

datatype Voice =
  DrumVoice DrumType real
  | GranularVoice real real
  | SampleVoice real real
  | SynthVoice real real

record AudioEngine =
  ctx :: bool
  preAmpGain :: bool
  masterFilter :: "real option"
  reverbNode :: bool
  reverbMixGain :: "real option"
  delayNode :: bool
  delayFeedback :: "real option"
  delayMixGain :: "real option"
  isInitialized :: bool
  activeVoices :: int
  voices :: "Voice list"
  masterSpeed :: real
  visualBrightness :: real
  visualHue :: real
  visualMotion :: real
  engineBpm :: real

definition MAX_POLYPHONY :: int where
  "MAX_POLYPHONY = 64"

definition newAudioEngine :: AudioEngine where
  \<comment> \<open>The field initialisers of the class: \<^verbatim>\<open>export const audio = new AudioEngine()\<close>.\<close>
  "newAudioEngine = \<lparr>
     ctx = False, preAmpGain = False, masterFilter = None, reverbNode = False,
     reverbMixGain = None, delayNode = False, delayFeedback = None, delayMixGain = None,
     isInitialized = False, activeVoices = 0, voices = [], masterSpeed = 1,
     visualBrightness = 0.5, visualHue = 0, visualMotion = 0, engineBpm = 120\<rparr>"

definition init :: "AudioEngine \<Rightarrow> AudioEngine" where
  \<comment> \<open>Creates the context and the node graph; the final \<^verbatim>\<open>setBPM(120)\<close> stores the tempo.\<close>
  "init s =
     (if isInitialized s then s
      else s\<lparr>ctx := True, preAmpGain := True, masterFilter := Some 22000, reverbNode := True,
             reverbMixGain := Some 0.3, delayNode := True, delayFeedback := Some 0.4,
             delayMixGain := Some 0.3, isInitialized := True, engineBpm := 120\<rparr>)"

definition updateVisualModulation :: "real \<Rightarrow> real \<Rightarrow> real \<Rightarrow> AudioEngine \<Rightarrow> AudioEngine" where
  "updateVisualModulation motion brightness hue s =
     (if \<not> ctx s \<or> reverbMixGain s = None \<or> delayMixGain s = None \<or> delayFeedback s = None
      then s
      else
        (let targetReverb = 0.1 + (brightness * 0.7);
             targetFeedback = 0.2 + (brightness * 0.5)
         in s\<lparr>visualMotion := motion, visualBrightness := brightness, visualHue := hue,
                reverbMixGain := Some targetReverb, delayFeedback := Some targetFeedback\<rparr>))"

definition setGlobalFilter :: "real \<Rightarrow> AudioEngine \<Rightarrow> AudioEngine" where
  "setGlobalFilter v s =
     (if masterFilter s = None \<or> \<not> ctx s then s
      else
        (let minFreq = ln 40; maxFreq = ln 20000;
             freq = exp (minFreq + v * (maxFreq - minFreq))
         in s\<lparr>masterFilter := Some (max 20 (min 22000 freq))\<rparr>))"

definition setGlobalDelayFeedback :: "real \<Rightarrow> AudioEngine \<Rightarrow> AudioEngine" where
  \<comment> \<open>The method body of the source is empty: \<^verbatim>\<open>setGlobalDelayFeedback(value: number) {}\<close>.\<close>
  "setGlobalDelayFeedback v s = s"

definition polyScale :: "int \<Rightarrow> real" where
  \<comment> \<open>\<^verbatim>\<open>1 / Math.sqrt(Math.max(1, this.activeVoices))\<close>, the headroom factor.\<close>
  "polyScale n = 1 / sqrt (max 1 (real_of_int n))"

definition triggerDrum :: "DrumType \<Rightarrow> real \<Rightarrow> real \<Rightarrow> AudioEngine \<Rightarrow> AudioEngine" where
  "triggerDrum ty velocity panPos s =
     (if \<not> ctx s \<or> \<not> preAmpGain s then s
      else if activeVoices s \<ge> MAX_POLYPHONY then s
      else
        (let n = activeVoices s + 1;
             masterScale = 0.35 * polyScale n;
             peak = (if ty = Drum808 \<or> ty = Drum909 then 1.2 * velocity * masterScale
                     else 0.5 * velocity * masterScale)
         in s\<lparr>activeVoices := n, voices := voices s @ [DrumVoice ty peak]\<rparr>))"

definition triggerPhysical ::
  "InstrumentConfig \<Rightarrow> real \<Rightarrow> real \<Rightarrow> Vector2 \<Rightarrow> AudioEngine \<Rightarrow> AudioEngine" where
  "triggerPhysical cfg frequency velocity spatialPos s = s"

definition triggerGranular ::
  "InstrumentConfig \<Rightarrow> real \<Rightarrow> real \<Rightarrow> Vector2 \<Rightarrow> AudioEngine \<Rightarrow> AudioEngine" where
  \<comment> \<open>Four grains are started; the counter is decremented once, when the last grain ends.\<close>
  "triggerGranular cfg frequency velocity spatialPos s =
     (if \<not> ctx s \<or> sampleBuffer cfg = None \<or> \<not> preAmpGain s then s
      else
        (let n = activeVoices s + 1;
             masterScale = 0.35 * polyScale n
         in s\<lparr>activeVoices := n,
                voices := voices s @ [GranularVoice frequency (vol cfg * velocity * masterScale)]\<rparr>))"

definition triggerSample ::
  "InstrumentConfig \<Rightarrow> real \<Rightarrow> real \<Rightarrow> Vector2 \<Rightarrow> AudioEngine \<Rightarrow> AudioEngine" where
  "triggerSample cfg frequency velocity spatialPos s =
     (if \<not> ctx s \<or> sampleBuffer cfg = None \<or> \<not> preAmpGain s then s
      else
        (let n = activeVoices s + 1;
             masterScale = 0.35 * polyScale n
         in s\<lparr>activeVoices := n,
                voices := voices s @ [SampleVoice frequency (vol cfg * velocity * masterScale)]\<rparr>))"

definition triggerSynth ::
  "InstrumentConfig \<Rightarrow> real \<Rightarrow> real \<Rightarrow> Vector2 \<Rightarrow> AudioEngine \<Rightarrow> AudioEngine" where
  "triggerSynth cfg frequency velocity spatialPos s =
     (if \<not> ctx s \<or> \<not> preAmpGain s then s
      else
        (let n = activeVoices s + 1;
             masterScale = 0.35 * polyScale n
         in s\<lparr>activeVoices := n,
                voices := voices s @ [SynthVoice frequency (vol cfg * velocity * masterScale)]\<rparr>))"

definition trigger ::
  "InstrumentConfig \<Rightarrow> real \<Rightarrow> real \<Rightarrow> Vector2 \<Rightarrow> real \<Rightarrow> AudioEngine \<Rightarrow> AudioEngine" where
  \<comment> \<open>\<open>rnd\<close> is the value of \<^verbatim>\<open>Math.random()\<close> in the hue test. The three hue ranges are
      disjoint and \<^verbatim>\<open>&&\<close> evaluates the hue comparison first, so one call draws at most
      once.\<close>
  "trigger cfg frequency velocity spatialPos rnd s =
     (if \<not> ctx s \<or> \<not> preAmpGain s then s
      else if activeVoices s \<ge> MAX_POLYPHONY then s
      else
        (let hue = visualHue s;
             modFreq0 = frequency * masterSpeed s;
             modFreq =
               (if hue > 160 \<and> hue < 260 \<and> rnd > 0.7 then modFreq0 * 1.5
                else if (hue > 280 \<or> hue < 20) \<and> rnd > 0.8 then modFreq0 * 2.0
                else if hue > 20 \<and> hue < 60 \<and> rnd > 0.8 then modFreq0 * 0.5
                else modFreq0)
         in if sourceType cfg = Some Granular \<and> sampleBuffer cfg \<noteq> None
              then triggerGranular cfg modFreq velocity spatialPos s
            else if sourceType cfg = Some Physical
              then triggerPhysical cfg modFreq velocity spatialPos s
            else if sourceType cfg = Some Sampler \<and> sampleBuffer cfg \<noteq> None
              then triggerSample cfg modFreq velocity spatialPos s
            else triggerSynth cfg modFreq velocity spatialPos s))"

definition triggerDraws :: "AudioEngine \<Rightarrow> bool" where
  \<comment> \<open>Whether a call of \<open>trigger\<close> evaluates \<^verbatim>\<open>Math.random()\<close> in its hue test: the call gets
      past the two guards and the hue lies in one of the three ranges.\<close>
  "triggerDraws s \<longleftrightarrow>
     ctx s \<and> preAmpGain s \<and> activeVoices s < MAX_POLYPHONY
     \<and> ((visualHue s > 160 \<and> visualHue s < 260) \<or> (visualHue s > 280 \<or> visualHue s < 20)
        \<or> (visualHue s > 20 \<and> visualHue s < 60))"

definition voiceEnded :: "nat \<Rightarrow> AudioEngine \<Rightarrow> AudioEngine" where
  \<comment> \<open>The \<^verbatim>\<open>onended\<close> callback of the \<open>i\<close>-th sounding voice: its nodes are disconnected and
      the counter is decremented. Each voice ends once; an index with no voice is no event.\<close>
  "voiceEnded i s =
     (if i < length (voices s)
      then s\<lparr>activeVoices := activeVoices s - 1, voices := take i (voices s) @ drop (Suc i) (voices s)\<rparr>
      else s)"

datatype EngineCall =
  Init
  | UpdateVisualModulation real real real
  | SetGlobalFilter real
  | SetGlobalDelayFeedback real
  | TriggerDrum DrumType real real
  | Trigger InstrumentConfig real real Vector2 real
  | VoiceEnded nat

fun engineCall :: "EngineCall \<Rightarrow> AudioEngine \<Rightarrow> AudioEngine" where
  "engineCall Init s = init s"
| "engineCall (UpdateVisualModulation motion brightness hue) s =
     updateVisualModulation motion brightness hue s"
| "engineCall (SetGlobalFilter v) s = setGlobalFilter v s"
| "engineCall (SetGlobalDelayFeedback v) s = setGlobalDelayFeedback v s"
| "engineCall (TriggerDrum ty velocity panPos) s = triggerDrum ty velocity panPos s"
| "engineCall (Trigger cfg frequency velocity spatialPos rnd) s =
     trigger cfg frequency velocity spatialPos rnd s"
| "engineCall (VoiceEnded i) s = voiceEnded i s"

fun engineCalls :: "EngineCall list \<Rightarrow> AudioEngine \<Rightarrow> AudioEngine" where
  \<comment> \<open>A history of the engine: the calls are made one after the other.\<close>
  "engineCalls [] s = s"
| "engineCalls (c # cs) s = engineCalls cs (engineCall c s)"

definition voicesCounted :: "AudioEngine \<Rightarrow> bool" where
  \<comment> \<open>The invariant of the voice counter: it counts the sounding voices and is at most
      the ceiling.\<close>
  "voicesCounted s \<longleftrightarrow>
     activeVoices s = int (length (voices s)) \<and> activeVoices s \<le> MAX_POLYPHONY"

definition fullEngine :: AudioEngine where
  \<comment> \<open>An example history: the engine is initialised and 64 bass drums are triggered.\<close>
  "fullEngine = engineCalls (Init # replicate 64 (TriggerDrum Drum808 1 0)) newAudioEngine"

section \<open>App.tsx: the configuration sanitizer\<close>

definition sanitizeConfig :: "SimulationConfig \<Rightarrow> SimulationConfig" where
  \<comment> \<open>The callback that \<^verbatim>\<open>sanitizeConfigs\<close> maps over the list.\<close>
  "sanitizeConfig cfg =
     (if sourceType (instrument cfg) = Some Sampler \<or> sourceType (instrument cfg) = Some Granular
      then cfg
      else
        (let isValidId = list_ex (\<lambda>p. Some (patchId p) = soundId (instrument cfg)) SOUND_LIBRARY;
             isUnsafePhysical =
               (sourceType (instrument cfg) = Some Physical
                \<and> (case tension (instrument cfg) of None \<Rightarrow> 0 | Some t \<Rightarrow> t) > 0.95)
         in if \<not> isValidId \<or> isUnsafePhysical then
              (let safePatch = SOUND_LIBRARY ! 0 in
                 cfg\<lparr>themeColor := patchThemeColor safePatch,
                     instrument := (config safePatch)\<lparr>
                       soundId := Some (patchId safePatch),
                       timbre := Some (case timbre (instrument cfg) of None \<Rightarrow> 0.5 | Some v \<Rightarrow> v),
                       time := Some (case time (instrument cfg) of None \<Rightarrow> 0.5 | Some v \<Rightarrow> v),
                       probability :=
                         Some (case probability (instrument cfg) of None \<Rightarrow> 1 | Some v \<Rightarrow> v)\<rparr>\<rparr>)
            else cfg))"

definition sanitizeConfigs :: "SimulationConfig list \<Rightarrow> SimulationConfig list" where
  "sanitizeConfigs configs = map sanitizeConfig configs"

definition needsReplacement :: "SimulationConfig \<Rightarrow> bool" where
  \<comment> \<open>The condition under which the callback takes the replacing branch: the configuration
      is neither a sampler nor a granular one, and its sound id is not in the library or it
      is a physical model with tension above 0.95.\<close>
  "needsReplacement cfg \<longleftrightarrow>
     sourceType (instrument cfg) \<noteq> Some Sampler \<and> sourceType (instrument cfg) \<noteq> Some Granular
     \<and> (\<not> list_ex (\<lambda>p. Some (patchId p) = soundId (instrument cfg)) SOUND_LIBRARY
        \<or> (sourceType (instrument cfg) = Some Physical
            \<and> (case tension (instrument cfg) of None \<Rightarrow> 0 | Some t \<Rightarrow> t) > 0.95))"

definition legacyPhysicalConfig :: SimulationConfig where
  \<comment> \<open>An example of an invalid configuration: a physical model with an unknown sound id
      and tension 0.99, no \<^verbatim>\<open>time\<close> value and probability 0.\<close>
  "legacyPhysicalConfig = \<lparr>
     cfgId = 1, cfgName = ''Legacy'', shapeType = SquareShape, vertexCount = 4,
     gravity = 0.1, friction = 0.01, restitution = 0.9, rotationSpeed = 0.01,
     ballCount = 3, ballSize = 6, initialSpeed = 4, description = ''legacy string model'',
     instrument = patchDefaults\<lparr>sourceType := Some Physical, soundId := Some ''phy_string'',
       tension := Some 0.99, timbre := Some 0.9, time := None, probability := Some 0\<rparr>,
     themeColor = ''#ffffff'',
     flock = \<lparr>enabled = False, boidCount = 0, perceptionRadius = 50, maxForce = 0.05,
       maxSpeed = 2, separationWeight = 1.5, alignmentWeight = 1, cohesionWeight = 1,
       flockColor = ''#ffffff'', personality = Caged, euclideanHits = 4, euclideanSteps = 16\<rparr>\<rparr>"

section \<open>App.tsx: chaos modulation and tap tempo\<close>

text \<open>
  The state of the \<^verbatim>\<open>App\<close> component that the two handlers use, together with the engine
  singleton \<^verbatim>\<open>audio\<close> they call. The state variable \<^verbatim>\<open>bpm\<close> is \<open>appBpm\<close>. Tap times are
  the integer milliseconds of \<^verbatim>\<open>Date.now()\<close>.
\<close>

record App =
  started :: bool
  tapTimesRef :: "int list"
  appBpm :: real
  chaosRef :: LorenzAttractor
  globalSettings :: GlobalSettings
  audio :: AudioEngine

definition initialSettings :: GlobalSettings where
  "initialSettings = \<lparr>
     timeScale = 1, gravityMultiplier = 1, rotationMultiplier = 1, rootKey = Ds,
     scale = Dorian, globalReverb = 0.5, globalFilter = 1, globalDelay = 0.3,
     isPlaying = True, mouseForceMode = Attract, bpm = 120,
     droneEnabled = False, droneVolume = 0, noiseEnabled = True, noiseVolume = 0.1,
     gravityLfoEnabled = True, gravityLfoRate = 1, lofiLevel = None, analogDrift = 0.1,
     chaosEnabled = False\<rparr>"

definition initialApp :: App where
  "initialApp = \<lparr>started = False, tapTimesRef = [], appBpm = 120,
     chaosRef = newLorenzAttractor, globalSettings = initialSettings, audio = newAudioEngine\<rparr>"

definition handleStart :: "App \<Rightarrow> App" where
  "handleStart app = app\<lparr>audio := init (audio app), started := True\<rparr>"

definition updateChaos :: "App \<Rightarrow> App" where
  \<comment> \<open>One iteration of the chaos loop; the body runs on every animation frame.\<close>
  "updateChaos app =
     (if chaosEnabled (globalSettings app) \<and> started app then
        (let c = lorenzUpdate (chaosRef app);
             normX = max 0.1 (min 1.0 ((lx c + 20) / 40));
             e1 = setGlobalFilter normX (audio app);
             normY = max 0.1 (min 0.8 ((ly c + 30) / 60));
             e2 = setGlobalDelayFeedback normY e1
         in app\<lparr>chaosRef := c, audio := e2\<rparr>)
      else app)"

fun intervalsSum :: "int list \<Rightarrow> int" where
  \<comment> \<open>The loop \<^verbatim>\<open>for (i = 1; i < n; i++) intervalsSum += taps[i] - taps[i - 1]\<close>.\<close>
  "intervalsSum (a # b # ts) = (b - a) + intervalsSum (b # ts)"
| "intervalsSum ts = 0"

definition tapBpm :: "(int list \<Rightarrow> bool) \<Rightarrow> int list \<Rightarrow> real" where
  \<comment> \<open>\<^verbatim>\<open>clampedBpm\<close> for a history of at least two taps. A zero average interval makes
      \<^verbatim>\<open>60000 / avgInterval\<close> the value \<^verbatim>\<open>Infinity\<close>, which \<^verbatim>\<open>Math.min(240, _)\<close> turns into 240.
      The source divides doubles. For the sums and counts a tap history has, that moves
      \<^verbatim>\<open>Math.round\<close> only when the exact quotient lies halfway between two integers and the
      average is not a double itself (the count does not divide twice the sum): the double
      quotient may then fall just below the tie, as \<^verbatim>\<open>112.49999999999999\<close> does for three
      intervals that sum to 1600 ms. \<open>tieUp\<close> says for each history whether it does not.\<close>
  "tapBpm tieUp taps =
     (let avgInterval = real_of_int (intervalsSum taps) / real (length taps - 1) in
      if avgInterval = 0 then 240
      else
        (let quotient = 60000 / avgInterval;
             belowTie = (frac quotient = 1 / 2
                         \<and> \<not> int (length taps - 1) dvd 2 * intervalsSum taps
                         \<and> \<not> tieUp taps);
             newBpm = (if belowTie then \<lfloor>quotient\<rfloor> else round quotient)
         in real_of_int (max 40 (min 240 newBpm))))"

definition handleTap :: "(int list \<Rightarrow> bool) \<Rightarrow> int \<Rightarrow> App \<Rightarrow> App" where
  \<comment> \<open>\<open>now\<close> is \<^verbatim>\<open>Date.now()\<close>. The test \<^verbatim>\<open>lastTap && now - lastTap > 2000\<close> is false when there
      is no last tap, and also when the last tap is the number 0.\<close>
  "handleTap tieUp now app =
     (let taps0 = tapTimesRef app;
          reset = (taps0 \<noteq> [] \<and> last taps0 \<noteq> 0 \<and> now - last taps0 > 2000);
          taps1 = (if reset then [] else taps0);
          taps2 = taps1 @ [now];
          taps3 = (if length taps2 > 4 then tl taps2 else taps2)
      in if length taps3 > 1 then
           (let clampedBpm = tapBpm tieUp taps3;
                prev = globalSettings app
            in app\<lparr>tapTimesRef := taps3, appBpm := clampedBpm,
                   globalSettings := prev\<lparr>bpm := clampedBpm,
                     timeScale := (if isPlaying prev then clampedBpm / 120 else 0)\<rparr>\<rparr>)
         else app\<lparr>tapTimesRef := taps3\<rparr>)"

fun handleTaps :: "(int list \<Rightarrow> bool) \<Rightarrow> int list \<Rightarrow> App \<Rightarrow> App" where
  \<comment> \<open>A sequence of taps at the given times.\<close>
  "handleTaps tieUp [] app = app"
| "handleTaps tieUp (now # rest) app = handleTaps tieUp rest (handleTap tieUp now app)"

definition retainedTaps :: "int \<Rightarrow> int list \<Rightarrow> int list" where
  \<comment> \<open>The tap history that \<open>handleTap\<close> leaves: the reset, the push and the shift.\<close>
  "retainedTaps now taps0 =
     (let taps2 = (if taps0 \<noteq> [] \<and> last taps0 \<noteq> 0 \<and> now - last taps0 > 2000
                   then [] else taps0) @ [now]
      in if length taps2 > 4 then tl taps2 else taps2)"

definition chaosApp :: App where
  \<comment> \<open>An example state: the application after \<open>handleStart\<close>, with chaos mode enabled.\<close>
  "chaosApp = (handleStart initialApp)\<lparr>globalSettings := initialSettings\<lparr>chaosEnabled := True\<rparr>\<rparr>"

section \<open>components/Canvas.tsx: the simulation\<close>

text \<open>
  \<open>Canvas\<close> is the mutable state of one canvas component: the physics state
  (\<^verbatim>\<open>stateRef\<close>), the refs the tick writes, and the engine singleton \<^verbatim>\<open>audio\<close>
  (\<open>canvasAudio\<close>). \<open>Frame\<close> is what one tick reads and does not write: the settings,
  volume and configuration refs, the \<^verbatim>\<open>config\<close> prop that the closure captured
  (\<open>configProp\<close>), the two clocks, and the sequence of values that \<^verbatim>\<open>Math.random()\<close> returns;
  \<open>randomCalls\<close> counts the values drawn so far. Draws made while the engine builds the
  nodes of a voice do not reach the modelled state and take no value of the sequence; the
  hue test of \<open>trigger\<close> takes one when it is evaluated. The clocks are read once per tick.
  \<^verbatim>\<open>Ball.id/color\<close> are \<open>ballId\<close>/\<open>ballColor\<close>, \<^verbatim>\<open>Boid.pos/vel\<close> are \<open>boidPos\<close>/\<open>boidVel\<close>,
  \<^verbatim>\<open>Impact.pos/radius\<close> are \<open>impactPos\<close>/\<open>impactRadius\<close>.
\<close>

record Ball =
  ballId :: string
  pos :: Vector2
  vel :: Vector2
  radius :: real
  ballColor :: string
  lastImpactTime :: "real option"
  trail :: "Vector2 list option"

record Boid =
  boidPos :: Vector2
  boidVel :: Vector2
  acc :: Vector2

record Impact =
  impactPos :: Vector2
  life :: real
  impactRadius :: real
  isGhost :: bool

datatype ImpactType = BallImpact | BoidImpact

record Canvas =
  balls :: "Ball list"
  boids :: "Boid list"
  rotation :: real
  mousePos :: "Vector2 option"
  isMouseDown :: bool
  startTime :: real
  impactsRef :: "Impact list"
  glitchRef :: real
  flockStepRef :: int
  pulseRef :: real
  currentGravityRef :: real
  canvasAudio :: AudioEngine
  randomCalls :: nat

record Frame =
  settingsRef :: GlobalSettings
  volumeRef :: real
  configRef :: SimulationConfig
  configProp :: SimulationConfig
  dateNow :: real
  performanceNow :: real
  mathRandom :: "nat \<Rightarrow> real"

definition clampUnit :: "real \<Rightarrow> real" where
  \<comment> \<open>\<^verbatim>\<open>Math.max(-1, Math.min(1, v))\<close>\<close>
  "clampUnit v = max (- 1) (min 1 v)"

definition handleImpact ::
  "Frame \<Rightarrow> Vector2 \<Rightarrow> real \<Rightarrow> int \<Rightarrow> real \<Rightarrow> real \<Rightarrow> ImpactType \<Rightarrow> Canvas \<Rightarrow> Canvas" where
  "handleImpact fr p speed wallIndex width height ty s =
     (let conf = configRef fr;
          prob = (case probability (instrument conf) of None \<Rightarrow> 1 | Some v \<Rightarrow> v);
          shouldPlay = (mathRandom fr (randomCalls s) \<le> prob);
          s1 = s\<lparr>randomCalls := Suc (randomCalls s),
                 impactsRef := impactsRef s @
                   [\<lparr>impactPos = p, life = 1,
                     impactRadius = (if ty = BallImpact then 5 + speed * 1.5 else 3),
                     isGhost = (\<not> shouldPlay)\<rparr>]\<rparr>
      in if \<not> shouldPlay then s1
         else
           (let s2 = (if ty = BallImpact then s1\<lparr>pulseRef := min (pulseRef s1 + 0.4) 1.2\<rparr> else s1)
            in if isPlaying (settingsRef fr) \<and> volumeRef fr > 0 then
                 (if ty = BoidImpact then
                    (let steps = (if euclideanSteps (flock conf) = 0 then 16
                                  else euclideanSteps (flock conf));
                         hits = (if euclideanHits (flock conf) = 0 then 4
                                 else euclideanHits (flock conf));
                         s3 = s2\<lparr>flockStepRef := jsRem (flockStepRef s2 + 1) steps\<rparr>
                     in if checkEuclideanStep (flockStepRef s3) hits steps then
                          (let shapeRadius = min width height * 0.42 in
                           s3\<lparr>canvasAudio :=
                                triggerDrum DrumGlitch (volumeRef fr * 0.7)
                                  (clampUnit (x p / shapeRadius)) (canvasAudio s3)\<rparr>)
                        else s3)
                  else
                    (let jump = mathRandom fr (randomCalls s2);
                         scaleDegree = wallIndex * 2 + (if jump > 0.96 then 7 else 0);
                         drift = analogDrift (settingsRef fr);
                         freq = getFrequencyFromScale (rootKey (settingsRef fr))
                                  (scale (settingsRef fr)) (baseOctave (instrument conf))
                                  scaleDegree drift (mathRandom fr (Suc (randomCalls s2)));
                         drawn = (if drift > 0 then Suc (Suc (randomCalls s2))
                                  else Suc (randomCalls s2));
                         velocity = min (max (speed / 6) 0.2) 1.2 * volumeRef fr;
                         shapeRadius = min width height * 0.42
                     in s2\<lparr>randomCalls := (if triggerDraws (canvasAudio s2) then Suc drawn
                                           else drawn),
                           canvasAudio :=
                             trigger (instrument conf) freq velocity
                               \<lparr>x = clampUnit (x p / shapeRadius),
                                y = clampUnit (y p / shapeRadius)\<rparr>
                               (mathRandom fr drawn) (canvasAudio s2)\<rparr>))
               else s2))"

fun decayImpacts :: "Impact list \<Rightarrow> Impact list" where
  \<comment> \<open>The clean-up loop runs from the last index down: each mark loses 0.05 of life and is
      spliced out when its life is not positive. Splicing at \<open>i\<close> leaves the marks before
      \<open>i\<close> in place, so the tail of the list is processed before its head.\<close>
  "decayImpacts [] = []"
| "decayImpacts (m # ms) =
     (let rest = decayImpacts ms;
          m' = m\<lparr>life := life m - 0.05\<rparr>
      in if life m' \<le> 0 then rest else m' # rest)"

definition jsRemReal :: "real \<Rightarrow> real \<Rightarrow> real" where
  \<comment> \<open>\<^verbatim>\<open>a % b\<close> on finite numbers with \<open>b \<noteq> 0\<close>: the quotient is truncated towards zero.\<close>
  "jsRemReal a b =
     a - b * real_of_int (if a / b \<ge> 0 then \<lfloor>a / b\<rfloor> else \<lceil>a / b\<rceil>)"

definition gravityLfo :: "Frame \<Rightarrow> Canvas \<Rightarrow> real" where
  \<comment> \<open>The sine overlay on gravity. With \<open>bpm = 0\<close> or \<open>gravityLfoRate = 0\<close> the period is
      \<^verbatim>\<open>Infinity\<close> in the source, the phase is 0 and so is the sine.\<close>
  "gravityLfo fr s =
     (let st = settingsRef fr in
      if bpm st = 0 \<or> gravityLfoRate st = 0 then 0
      else
        (let beatDur = 60000 / bpm st;
             period = beatDur * (1 / gravityLfoRate st);
             phase = jsRemReal (dateNow fr - startTime s) period / period
         in sin (phase * pi * 2)))"

definition moveBall :: "Frame \<Rightarrow> real \<Rightarrow> Ball \<Rightarrow> Canvas \<Rightarrow> Ball \<times> Canvas" where
  \<comment> \<open>The body of the ball loop up to the wall collisions: trail, gravity, turbulence,
      pointer force, friction and the position step.\<close>
  "moveBall fr effectiveGravity ball s =
     (let conf = configRef fr;
          st = settingsRef fr;
          ts = timeScale st;
          r0 = randomCalls s;
          jitter = \<lparr>x = (mathRandom fr r0 - 0.5) * 2, y = (mathRandom fr (r0 + 1) - 0.5) * 2\<rparr>;
          trail1 = (case trail ball of None \<Rightarrow> [] | Some tr \<Rightarrow> tr) @ [add (pos ball) jitter];
          trail2 = (if length trail1 > 8 then tl trail1 else trail1);
          v1 = (vel ball)\<lparr>y := y (vel ball) + effectiveGravity * ts\<rparr>;
          turbulent = (case chaos (instrument conf) of None \<Rightarrow> False | Some c \<Rightarrow> c > 0);
          chaosForce = (case chaos (instrument conf) of None \<Rightarrow> 0 | Some c \<Rightarrow> c) * 0.5 * ts;
          v2 = (if turbulent
                then \<lparr>x = x v1 + (mathRandom fr (r0 + 2) - 0.5) * chaosForce,
                      y = y v1 + (mathRandom fr (r0 + 3) - 0.5) * chaosForce\<rparr>
                else v1);
          r1 = (if turbulent then r0 + 4 else r0 + 2);
          v3 = (case mousePos s of
                  None \<Rightarrow> v2
                | Some m \<Rightarrow>
                    if isMouseDown s then
                      (let dx = x (pos ball) - x m;
                           dy = y (pos ball) - y m;
                           dist = sqrt (dx * dx + dy * dy)
                       in if dist < 300 \<and> dist > 1 then
                            (let force = (3000 / (dist + 5)) * ts
                                   * (if mouseForceMode st = Attract then - 1 else 1)
                             in \<lparr>x = x v2 + (dx / dist) * force * 0.15,
                                 y = y v2 + (dy / dist) * force * 0.15\<rparr>)
                          else v2)
                    else v2);
          v4 = mult v3 (1 - friction conf * ts);
          p1 = add (pos ball) (mult v4 ts)
      in (ball\<lparr>trail := Some trail2, vel := v4, pos := p1\<rparr>, s\<lparr>randomCalls := r1\<rparr>))"

definition edgeNormal :: "Vector2 \<Rightarrow> Vector2 \<Rightarrow> Vector2" where
  \<comment> \<open>\<^verbatim>\<open>normalize({ x: -edge.y, y: edge.x })\<close> for \<^verbatim>\<open>edge = sub(p2, p1)\<close>.\<close>
  "edgeNormal p1 p2 = (let edge = sub p2 p1 in normalize \<lparr>x = - y edge, y = x edge\<rparr>)"

definition resolveEdge ::
  "Frame \<Rightarrow> real \<Rightarrow> real \<Rightarrow> Vector2 list \<Rightarrow> nat \<Rightarrow> Ball \<times> Canvas \<Rightarrow> Ball \<times> Canvas" where
  \<comment> \<open>The body of the wall loop for edge \<open>i\<close>.\<close>
  "resolveEdge fr width height vertices i bs =
     (case bs of (ball, s) \<Rightarrow>
      (let p1 = vertices ! i;
           p2 = vertices ! ((i + 1) mod length vertices);
           normal = edgeNormal p1 p2;
           relPos = sub (pos ball) p1;
           dist = dot relPos normal
       in if dist < radius ball then
            (let ball1 = ball\<lparr>pos := add (pos ball) (mult normal (radius ball - dist))\<rparr>;
                 vDotN = dot (vel ball1) normal
             in if vDotN < 0 then
                  (let now = performanceNow fr;
                       fire = (case lastImpactTime ball1 of
                                 None \<Rightarrow> True
                               | Some t \<Rightarrow> t = 0 \<or> now - t > 80);
                       s1 = (if fire
                             then handleImpact fr (add (pos ball1) (mult normal (- radius ball1)))
                                    (mag (vel ball1)) (int i) width height BallImpact s
                             else s);
                       ball2 = (if fire then ball1\<lparr>lastImpactTime := Some now\<rparr> else ball1);
                       reflect = mult normal (2 * vDotN)
                   in (ball2\<lparr>vel := mult (sub (vel ball2) reflect) (restitution (configRef fr))\<rparr>, s1))
                else (ball1, s))
          else (ball, s)))"

definition updateBall ::
  "Frame \<Rightarrow> real \<Rightarrow> real \<Rightarrow> real \<Rightarrow> Vector2 list \<Rightarrow> nat \<Rightarrow> Canvas \<Rightarrow> Canvas" where
  \<comment> \<open>One turn of \<^verbatim>\<open>state.balls.forEach\<close>: ball \<open>k\<close> is moved, then tested against every edge
      in order, and written back.\<close>
  "updateBall fr width height effectiveGravity vertices k s =
     (case fold (resolveEdge fr width height vertices) [0..<length vertices]
             (moveBall fr effectiveGravity (balls s ! k) s) of
        (ball, s1) \<Rightarrow> s1\<lparr>balls := (balls s1)[k := ball]\<rparr>)"

subsection \<open>The flock\<close>

definition zeroVector :: Vector2 where
  "zeroVector = \<lparr>x = 0, y = 0\<rparr>"

definition coincides :: "Boid list \<Rightarrow> nat \<Rightarrow> real \<Rightarrow> bool" where
  \<comment> \<open>Another unit lies at distance 0 inside the perception radius. The source then
      multiplies the zero difference by \<^verbatim>\<open>1 / (d * d) = Infinity\<close> and the separation sum
      becomes \<^verbatim>\<open>NaN\<close>.\<close>
  "coincides bs i perceptionR =
     list_ex (\<lambda>j. j \<noteq> i \<and> mag (sub (boidPos (bs ! i)) (boidPos (bs ! j))) = 0
                  \<and> 0 < perceptionR)
       [0..<length bs]"

definition flockSums :: "Boid list \<Rightarrow> nat \<Rightarrow> real \<Rightarrow> Vector2 \<times> Vector2 \<times> Vector2 \<times> nat" where
  \<comment> \<open>The inner \<^verbatim>\<open>state.boids.forEach(other => ...)\<close>: the sums \<open>(align, cohesion,
      separation, total)\<close> over the other units within the perception radius.\<close>
  "flockSums bs i perceptionR =
     fold (\<lambda>j (al, co, se, near).
             (let boid = bs ! i; other = bs ! j;
                  d = mag (sub (boidPos boid) (boidPos other))
              in if j \<noteq> i \<and> d < perceptionR then
                   (add al (boidVel other), add co (boidPos other),
                    add se (mult (sub (boidPos boid) (boidPos other)) (1 / (d * d))),
                    Suc near)
                 else (al, co, se, near)))
       [0..<length bs] (zeroVector, zeroVector, zeroVector, 0)"

definition avoidBall :: "Frame \<Rightarrow> real \<Rightarrow> real \<Rightarrow> Ball \<Rightarrow> Boid \<times> Canvas \<Rightarrow> Boid \<times> Canvas" where
  \<comment> \<open>One turn of the inner \<^verbatim>\<open>state.balls.forEach\<close> of a flock unit.\<close>
  "avoidBall fr width height ball bs =
     (case bs of (boid, s) \<Rightarrow>
      (let d = mag (sub (boidPos boid) (pos ball)) in
       if d < radius ball + 15 then
         (let flee = normalize (sub (boidPos boid) (pos ball));
              boid1 = boid\<lparr>acc := add (acc boid) (mult flee 0.5)\<rparr>;
              sample = mathRandom fr (randomCalls s);
              s1 = s\<lparr>randomCalls := Suc (randomCalls s)\<rparr>
          in if sample > 0.95 \<and> isPlaying (settingsRef fr) then
               (let shapeRadius = min width height * 0.42 in
                (boid1,
                 s1\<lparr>canvasAudio :=
                      triggerDrum Drum808 (volumeRef fr * 0.8)
                        (clampUnit (x (boidPos boid1) / shapeRadius)) (canvasAudio s1),
                    impactsRef := impactsRef s1 @
                      [\<lparr>impactPos = boidPos boid1, life = 0.5, impactRadius = 2,
                        isGhost = False\<rparr>]\<rparr>))
             else (boid1, s1))
       else (boid, s)))"

definition updateBoid :: "Frame \<Rightarrow> real \<Rightarrow> real \<Rightarrow> real \<Rightarrow> nat \<Rightarrow> Canvas \<Rightarrow> Canvas option" where
  \<comment> \<open>One turn of \<^verbatim>\<open>state.boids.forEach\<close> for unit \<open>i\<close>. The units before \<open>i\<close> have already
      moved. The result is \<open>None\<close> when the turn produces \<^verbatim>\<open>NaN\<close>, which the real numbers of
      the model cannot hold.\<close>
  "updateBoid fr width height shapeRadius i s =
     (let fl = flock (configProp fr);
          perceptionR = perceptionRadius fl
      in if coincides (boids s) i perceptionR then None
         else
           (case flockSums (boids s) i perceptionR of
              (al, co, se, near) \<Rightarrow>
              (let boid = boids s ! i;
                   align = (if near > 0 then
                              limitVector
                                (sub (mult (normalize (mult al (1 / real near))) (maxSpeed fl))
                                   (boidVel boid))
                                (maxForce fl)
                            else al);
                   cohesion = (if near > 0 then
                                 limitVector
                                   (sub (mult (normalize (sub (mult co (1 / real near))
                                                            (boidPos boid)))
                                           (maxSpeed fl))
                                      (boidVel boid))
                                   (maxForce fl)
                               else co);
                   separation = (if near > 0 then
                                   limitVector
                                     (sub (mult (normalize (mult se (1 / real near)))
                                             (maxSpeed fl))
                                        (boidVel boid))
                                     (maxForce fl)
                                 else se);
                   a1 = add (acc boid) (mult align (alignmentWeight fl));
                   a2 = add a1 (mult cohesion (cohesionWeight fl));
                   a3 = add a2 (mult separation (separationWeight fl));
                   centerDir = sub zeroVector (boidPos boid);
                   a4 = add a3 (mult (normalize centerDir) 0.01)
               in case fold (avoidBall fr width height) (balls s) (boid\<lparr>acc := a4\<rparr>, s) of
                    (boid1, s1) \<Rightarrow>
                    (let v1 = limitVector (add (boidVel boid1) (acc boid1)) (maxSpeed fl);
                         p1 = add (boidPos boid1) (mult v1 (timeScale (settingsRef fr)));
                         dist = mag p1
                     in if dist > shapeRadius then
                          (let normal = mult (normalize p1) (- 1);
                               v2 = add v1 (mult normal 2);
                               boid2 = \<lparr>boidPos = p1, boidVel = v2, acc = zeroVector\<rparr>;
                               sample = mathRandom fr (randomCalls s1);
                               s2 = s1\<lparr>boids := (boids s1)[i := boid2],
                                       randomCalls := Suc (randomCalls s1)\<rparr>
                           in if sample > 0.98
                              then Some (handleImpact fr p1 (mag v2) 0 width height BoidImpact s2)
                              else Some s2)
                        else
                          Some (s1\<lparr>boids :=
                                  (boids s1)[i := \<lparr>boidPos = p1, boidVel = v1,
                                                   acc = zeroVector\<rparr>]\<rparr>)))))"

fun updateBoids :: "Frame \<Rightarrow> real \<Rightarrow> real \<Rightarrow> real \<Rightarrow> nat list \<Rightarrow> Canvas \<Rightarrow> Canvas option" where
  "updateBoids fr width height shapeRadius [] s = Some s"
| "updateBoids fr width height shapeRadius (i # rest) s =
     (case updateBoid fr width height shapeRadius i s of
        None \<Rightarrow> None
      | Some s1 \<Rightarrow> updateBoids fr width height shapeRadius rest s1)"

subsection \<open>The tick\<close>

definition updatePhysics :: "Frame \<Rightarrow> real \<Rightarrow> real \<Rightarrow> Canvas \<Rightarrow> Canvas option" where
  "updatePhysics fr width height s =
     (let settings = settingsRef fr;
          conf = configRef fr;
          s0 = s\<lparr>impactsRef := decayImpacts (impactsRef s)\<rparr>
      in if timeScale settings = 0 then Some s0
         else
           (let shapeRadius = min width height * 0.42;
                rot = rotation s0
                      + rotationSpeed conf * rotationMultiplier settings * timeScale settings;
                effectiveGravity =
                  gravity conf * gravityMultiplier settings
                  + (if gravityLfoEnabled settings then gravityLfo fr s0 * 0.35 else 0);
                s1 = s0\<lparr>pulseRef := pulseRef s0 * 0.94,
                        glitchRef := (if glitchRef s0 > 0.01 then glitchRef s0 * 0.92 else 0),
                        rotation := rot,
                        currentGravityRef := effectiveGravity\<rparr>;
                vertices =
                  (if shapeType conf = StarShape
                   then generateStar (if vertexCount conf = 0 then 5 else vertexCount conf)
                          shapeRadius (shapeRadius * 0.4) zeroVector rot
                   else generatePolygon (if vertexCount conf = 0 then 4 else vertexCount conf)
                          shapeRadius zeroVector rot);
                s2 = fold (updateBall fr width height effectiveGravity vertices)
                       [0..<length (balls s1)] s1
            in if enabled (flock (configProp fr))
               then updateBoids fr width height shapeRadius [0..<length (boids s2)] s2
               else Some s2))"

record Tick =
  frame :: Frame
  canvasWidth :: real
  canvasHeight :: real

fun updatePhysicsTicks :: "Tick list \<Rightarrow> Canvas \<Rightarrow> Canvas option" where
  \<comment> \<open>Consecutive ticks, each with the refs and the canvas size it finds.\<close>
  "updatePhysicsTicks [] s = Some s"
| "updatePhysicsTicks (t # ts) s =
     (case updatePhysics (frame t) (canvasWidth t) (canvasHeight t) s of
        None \<Rightarrow> None
      | Some s1 \<Rightarrow> updatePhysicsTicks ts s1)"

subsection \<open>Example inputs\<close>

definition exampleConfig :: SimulationConfig where
  \<comment> \<open>A valid configuration: the default synthesizer patch, probability 1, restitution 0.9.\<close>
  "exampleConfig = legacyPhysicalConfig\<lparr>instrument := patchDefaults\<lparr>soundId := Some ''ana_bass''\<rparr>\<rparr>"

definition exampleFrame :: Frame where
  "exampleFrame = \<lparr>settingsRef = initialSettings, volumeRef = 1, configRef = exampleConfig,
     configProp = exampleConfig, dateNow = 1000, performanceNow = 1000,
     mathRandom = (\<lambda>n. 0.5)\<rparr>"

definition exampleBall :: Ball where
  "exampleBall = \<lparr>ballId = ''1-0'', pos = \<lparr>x = 20, y = 0\<rparr>, vel = \<lparr>x = 0, y = - 2\<rparr>,
     radius = 6, ballColor = ''#ffffff'', lastImpactTime = None, trail = None\<rparr>"

definition exampleCanvas :: Canvas where
  \<comment> \<open>One ball, one flock unit, one visual mark with life 0.08, an initialised engine.\<close>
  "exampleCanvas = \<lparr>balls = [exampleBall],
     boids = [\<lparr>boidPos = \<lparr>x = 10, y = 10\<rparr>, boidVel = \<lparr>x = 1, y = 0\<rparr>, acc = zeroVector\<rparr>],
     rotation = 0, mousePos = None, isMouseDown = False, startTime = 0,
     impactsRef = [\<lparr>impactPos = zeroVector, life = 0.08, impactRadius = 5, isGhost = False\<rparr>],
     glitchRef = 0, flockStepRef = 0, pulseRef = 0, currentGravityRef = 0,
     canvasAudio = init newAudioEngine, randomCalls = 0\<rparr>"

definition pausedTick :: Tick where
  \<comment> \<open>A tick of the example canvas with the time scale at 0.\<close>
  "pausedTick = \<lparr>frame = exampleFrame\<lparr>settingsRef := initialSettings\<lparr>timeScale := 0\<rparr>\<rparr>,
     canvasWidth = 600, canvasHeight = 400\<rparr>"

definition stoppedFrame :: Frame where
  \<comment> \<open>The example frame with playback switched off.\<close>
  "stoppedFrame = exampleFrame\<lparr>settingsRef := initialSettings\<lparr>isPlaying := False\<rparr>\<rparr>"

definition silentFrame :: Frame where
  \<comment> \<open>The example frame with the instrument's probability at 0.\<close>
  "silentFrame = exampleFrame\<lparr>configRef :=
     exampleConfig\<lparr>instrument := (instrument exampleConfig)\<lparr>probability := Some 0\<rparr>\<rparr>\<rparr>"

definition silentFrameZeroSample :: Frame where
  \<comment> \<open>Probability 0, and \<^verbatim>\<open>Math.random()\<close> returns 0.\<close>
  "silentFrameZeroSample = silentFrame\<lparr>mathRandom := (\<lambda>n. 0)\<rparr>"

definition gateProbability :: "Frame \<Rightarrow> real" where
  \<comment> \<open>\<^verbatim>\<open>conf.instrument.probability ?? 1.0\<close>, the probability the gate of \<open>handleImpact\<close> uses.\<close>
  "gateProbability fr =
     (case probability (instrument (configRef fr)) of None \<Rightarrow> 1 | Some v \<Rightarrow> v)"

definition silentFrameHighSample :: Frame where
  \<comment> \<open>Probability 0, and \<^verbatim>\<open>Math.random()\<close> returns 0.99.\<close>
  "silentFrameHighSample = silentFrame\<lparr>mathRandom := (\<lambda>n. 0.99)\<rparr>"

definition nearBoid :: Boid where
  \<comment> \<open>A flock unit at distance 5 from the centre of the example ball.\<close>
  "nearBoid = \<lparr>boidPos = \<lparr>x = 23, y = 4\<rparr>, boidVel = \<lparr>x = 1, y = 0\<rparr>, acc = zeroVector\<rparr>"

section \<open>The rhythm gate over one period\<close>

lemma jsRem_nonneg: "0 \<le> a \<Longrightarrow> 0 < b \<Longrightarrow> jsRem a b = a mod b"
  by (cases "a = 0") (simp_all add: jsRem_def)

lemma div_decomp: "r < n \<Longrightarrow> (q * n + r) div n = (q::nat)"
  by simp

lemma gate_indicator:
  fixes s h n :: nat
  assumes "0 < h" "h \<le> n"
  shows "(if (Suc s * h) mod n < h then 1 else 0) + (s * h) div n = (Suc s * h) div n"
proof -
  have n: "0 < n" using assms by simp
  define q where "q = (Suc s * h) div n"
  define r where "r = (Suc s * h) mod n"
  have eq: "Suc s * h = q * n + r" and r: "r < n"
    using n by (simp_all add: q_def r_def)
  have sh: "s * h + h = q * n + r" using eq by simp
  show ?thesis
  proof (cases "r < h")
    case True
    then have "s * h < q * n" using sh by linarith
    then have q0: "0 < q" by (cases q) simp_all
    have "s * h = (q - 1) * n + (n + r - h)"
      using sh True q0 assms by (cases q) (simp_all add: algebra_simps)
    moreover have "n + r - h < n" using True assms by linarith
    ultimately have "(s * h) div n = q - 1"
      using div_decomp[of "n + r - h" n "q - 1"] by simp
    then show ?thesis using True q0 unfolding q_def r_def by simp
  next
    case False
    then have "s * h = q * n + (r - h)" using sh by linarith
    moreover have "r - h < n" using r by linarith
    ultimately have "(s * h) div n = q"
      using div_decomp[of "r - h" n q] by simp
    then show ?thesis using False unfolding q_def r_def by simp
  qed
qed

lemma gate_count_prefix:
  fixes h n :: nat
  assumes "0 < h" "h \<le> n"
  shows "length (filter (\<lambda>s. (s * h) mod n < h) [0..<Suc k]) = (k * h) div n + 1"
proof (induction k)
  case 0
  then show ?case using assms by simp
next
  case (Suc k)
  have "length (filter (\<lambda>s. (s * h) mod n < h) [0..<Suc (Suc k)])
        = length (filter (\<lambda>s. (s * h) mod n < h) [0..<Suc k])
          + (if (Suc k * h) mod n < h then 1 else 0)"
    by simp
  also have "\<dots> = (k * h) div n + 1 + (if (Suc k * h) mod n < h then 1 else 0)"
    using Suc.IH by simp
  also have "\<dots> = (Suc k * h) div n + 1"
    using gate_indicator[OF assms, of k] by simp
  finally show ?case .
qed

lemma gate_count_period:
  fixes h n :: nat
  assumes "0 < h" "h \<le> n"
  shows "length (filter (\<lambda>s. (s * h) mod n < h) [0..<n]) = h"
proof -
  obtain m where m: "n = Suc m" using assms by (cases n) simp_all
  have "m * h = (h - 1) * n + (n - h)"
    using assms m by (cases h) (simp_all add: algebra_simps)
  moreover have "n - h < n" using assms by simp
  ultimately have "(m * h) div n = h - 1"
    using div_decomp[of "n - h" n "h - 1"] by simp
  then show ?thesis using gate_count_prefix[OF assms, of m] m assms by simp
qed

lemma checkEuclideanStep_nat:
  assumes "0 < hits" "hits \<le> totalSteps"
  shows "checkEuclideanStep (int s) hits totalSteps
         = ((s * nat hits) mod nat totalSteps < nat hits)"
proof -
  have n: "0 < totalSteps" using assms by simp
  have "jsRem (int s * hits) totalSteps = (int s * hits) mod totalSteps"
    using assms n by (intro jsRem_nonneg) simp_all
  also have "\<dots> = int ((s * nat hits) mod nat totalSteps)"
    using assms n by (simp add: zmod_int)
  finally have "jsRem (int s * hits) totalSteps = int ((s * nat hits) mod nat totalSteps)" .
  then show ?thesis using assms n by (simp add: checkEuclideanStep_def zless_nat_eq_int_zless)
qed

text \<open>
  Claim C3. For integers \<open>hits\<close> and \<open>totalSteps\<close> with \<open>0 < hits \<le> totalSteps\<close>, exactly
  \<open>hits\<close> of the steps \<open>0, 1, \<dots>, totalSteps - 1\<close> pass \<open>checkEuclideanStep\<close>.
\<close>

theorem checkEuclideanStep_period_count:
  assumes "0 < hits" "hits \<le> totalSteps"
  shows "int (length (filter (\<lambda>s. checkEuclideanStep (int s) hits totalSteps)
                       [0..<nat totalSteps])) = hits"
proof -
  have "filter (\<lambda>s. checkEuclideanStep (int s) hits totalSteps) [0..<nat totalSteps]
        = filter (\<lambda>s. (s * nat hits) mod nat totalSteps < nat hits) [0..<nat totalSteps]"
    using checkEuclideanStep_nat[OF assms] by simp
  moreover have "length (filter (\<lambda>s. (s * nat hits) mod nat totalSteps < nat hits)
                   [0..<nat totalSteps]) = nat hits"
    using assms by (intro gate_count_period) simp_all
  ultimately show ?thesis using assms by simp
qed

theorem checkEuclideanStep_period_count_witness:
  "(0::int) < 3 \<and> (3::int) \<le> 8 \<and>
   int (length (filter (\<lambda>s. checkEuclideanStep (int s) 3 8) [0..<nat 8])) = 3"
proof -
  have a: "(0::int) < 3" and b: "(3::int) \<le> 8" by simp_all
  from checkEuclideanStep_period_count[OF a b] a b show ?thesis by blast
qed

text \<open>
  Claim C10. With \<open>totalSteps = 0\<close> the gate answers \<open>False\<close> for every step and every
  number of hits: the guard comes before the remainder, which is never taken by zero.
\<close>

theorem checkEuclideanStep_zero_steps: "checkEuclideanStep step hits 0 = False"
  by (simp add: checkEuclideanStep_def)

section \<open>Octave equivalence of the scale mapper\<close>

lemma SCALES_nonempty: "sc \<noteq> Harmonics \<Longrightarrow> 0 < length (SCALES sc)"
  by (cases sc) simp_all

lemma jsRem_add_period: "0 \<le> d \<Longrightarrow> 0 < n \<Longrightarrow> jsRem (d + n) n = jsRem d n"
  by (simp add: jsRem_nonneg)

lemma div_add_period: "0 < n \<Longrightarrow> (d + n) div n = d div n + (1::int)"
  by simp

lemma table_scale_octave:
  assumes "sc \<noteq> Harmonics" "0 \<le> d"
  shows "getFrequencyFromScale key sc oct (d + int (length (SCALES sc))) 0 rnd
       = 2 * getFrequencyFromScale key sc oct d 0 rnd"
proof -
  let ?n = "int (length (SCALES sc))"
  have n: "0 < ?n" using SCALES_nonempty[OF assms(1)] by simp
  have r: "jsRem (d + ?n) ?n = jsRem d ?n" using assms n by (rule_tac jsRem_add_period) simp_all
  have q: "(d + ?n) div ?n = d div ?n + 1" using n by (rule div_add_period)
  have p: "2 powr ((t + 12 - 69) / 12) = 2 * 2 powr ((t - 69) / 12)" for t :: real
  proof -
    have e: "(t + 12 - 69) / 12 = 1 + (t - 69) / 12" by (simp add: field_simps)
    have "2 powr (1 + (t - 69) / 12) = 2 * 2 powr ((t - 69) / 12)" by (simp add: powr_add)
    then show ?thesis by (simp only: e)
  qed
  define idx where "idx k = nat (if jsRem k ?n < 0 then ?n + jsRem k ?n else jsRem k ?n)" for k
  define M where "M k = (oct + 1) * 12 + real_of_int (rootIndexOf key)
      + real_of_int ((k div ?n) * 12) + real_of_int (SCALES sc ! idx k)" for k
  have F: "getFrequencyFromScale key sc oct k 0 rnd
           = BASE_A4 * 2 powr ((M k - 69) / 12)" for k
    using assms(1) by (simp add: getFrequencyFromScale_def Let_def M_def idx_def)
  have i: "idx (d + ?n) = idx d" by (simp only: idx_def r)
  have "M (d + ?n) = M d + 12" by (simp only: M_def q i) simp
  then show ?thesis by (simp only: F p)
qed

lemma harmonics_scale_multiple: "0 \<le> n \<Longrightarrow> getFrequencyFromScale key Harmonics oct n 0 rnd
   = real_of_int (n + 1) * getFrequencyFromScale key Harmonics oct 0 0 rnd"
  by (simp add: getFrequencyFromScale_def Let_def)

text \<open>
  Claim C2. With drift 0 and a scale degree \<open>d \<ge> 0\<close>: on every scale other than the
  harmonics scale, raising the degree by the number of intervals of the scale doubles the
  frequency; on the harmonics scale the frequency at degree \<open>d\<close> is \<open>d + 1\<close> times the
  frequency at degree 0. Frequencies are real numbers here.
\<close>

theorem getFrequencyFromScale_octave_equivalence:
  assumes "0 \<le> d"
  shows "(sc \<noteq> Harmonics \<longrightarrow>
            getFrequencyFromScale key sc oct (d + int (length (SCALES sc))) 0 rnd
            = 2 * getFrequencyFromScale key sc oct d 0 rnd)
       \<and> getFrequencyFromScale key Harmonics oct d 0 rnd
            = real_of_int (d + 1) * getFrequencyFromScale key Harmonics oct 0 0 rnd"
  using assms table_scale_octave harmonics_scale_multiple by blast

theorem getFrequencyFromScale_octave_equivalence_witness:
  "(0::int) \<le> 0 \<and> Chromatic \<noteq> Harmonics
   \<and> getFrequencyFromScale A Chromatic 4 0 0 0 = 440
   \<and> getFrequencyFromScale A Chromatic 4 (0 + int (length (SCALES Chromatic))) 0 0 = 880
   \<and> getFrequencyFromScale A Harmonics 4 0 0 0
       = real_of_int (0 + 1) * getFrequencyFromScale A Harmonics 4 0 0 0"
proof -
  have v: "getFrequencyFromScale A Chromatic 4 0 0 0 = 440"
    by (simp add: getFrequencyFromScale_def getFrequency_def BASE_A4_def jsRem_def)
  have h: "(0::int) \<le> 0" by simp
  from getFrequencyFromScale_octave_equivalence[OF h, of Chromatic A 4 0] v
  show ?thesis by simp
qed

section \<open>Idempotence of the configuration sanitizer\<close>

lemma sanitizeConfig_keep: "\<not> needsReplacement cfg \<Longrightarrow> sanitizeConfig cfg = cfg"
  by (auto simp: sanitizeConfig_def needsReplacement_def Let_def)

lemma sanitizeConfig_replace:
  "needsReplacement cfg \<Longrightarrow> sanitizeConfig cfg =
     cfg\<lparr>themeColor := patchThemeColor (SOUND_LIBRARY ! 0),
         instrument := (config (SOUND_LIBRARY ! 0))\<lparr>
           soundId := Some (patchId (SOUND_LIBRARY ! 0)),
           timbre := Some (case timbre (instrument cfg) of None \<Rightarrow> 0.5 | Some v \<Rightarrow> v),
           time := Some (case time (instrument cfg) of None \<Rightarrow> 0.5 | Some v \<Rightarrow> v),
           probability := Some (case probability (instrument cfg) of None \<Rightarrow> 1 | Some v \<Rightarrow> v)\<rparr>\<rparr>"
  by (auto simp: sanitizeConfig_def needsReplacement_def Let_def)

lemma sanitizeConfig_idem: "sanitizeConfig (sanitizeConfig cfg) = sanitizeConfig cfg"
proof (cases "needsReplacement cfg")
  case False
  then show ?thesis by (simp add: sanitizeConfig_keep)
next
  case True
  note r = sanitizeConfig_replace[OF True]
  show ?thesis
  proof (cases "needsReplacement (sanitizeConfig cfg)")
    case False
    then show ?thesis by (simp add: sanitizeConfig_keep)
  next
    case True
    show ?thesis
      by (subst sanitizeConfig_replace[OF True]) (simp add: r)
  qed
qed

lemma sanitizeConfigs_idem: "sanitizeConfigs (sanitizeConfigs cs) = sanitizeConfigs cs"
  by (simp add: sanitizeConfigs_def sanitizeConfig_idem)

text \<open>
  Claim C9. Sanitizing a list of configurations twice gives the same list as sanitizing it
  once, whatever the configurations are. Where a configuration is replaced, the result
  carries the theme colour and the instrument of the first library patch with that patch's
  id as sound id, except that timbre, time and probability are those of the original
  configuration (0.5, 0.5 and 1 where the original has none).
\<close>

theorem sanitizeConfigs_idempotent:
  "sanitizeConfigs (sanitizeConfigs cs) = sanitizeConfigs cs
   \<and> (\<forall>i < length cs. needsReplacement (cs ! i) \<longrightarrow>
        (let cfg = cs ! i; out = sanitizeConfigs cs ! i; safePatch = SOUND_LIBRARY ! 0 in
           themeColor out = patchThemeColor safePatch
           \<and> soundId (instrument out) = Some (patchId safePatch)
           \<and> timbre (instrument out)
               = Some (case timbre (instrument cfg) of None \<Rightarrow> 0.5 | Some v \<Rightarrow> v)
           \<and> time (instrument out)
               = Some (case time (instrument cfg) of None \<Rightarrow> 0.5 | Some v \<Rightarrow> v)
           \<and> probability (instrument out)
               = Some (case probability (instrument cfg) of None \<Rightarrow> 1 | Some v \<Rightarrow> v)
           \<and> (instrument out)\<lparr>soundId := None, timbre := None, time := None, probability := None\<rparr>
               = (config safePatch)\<lparr>soundId := None, timbre := None, time := None,
                                     probability := None\<rparr>
           \<and> out\<lparr>themeColor := themeColor cfg, instrument := instrument cfg\<rparr> = cfg))"
proof (intro conjI allI impI)
  show "sanitizeConfigs (sanitizeConfigs cs) = sanitizeConfigs cs"
    by (rule sanitizeConfigs_idem)
next
  fix i assume i: "i < length cs" and r: "needsReplacement (cs ! i)"
  have "sanitizeConfigs cs ! i = sanitizeConfig (cs ! i)"
    using i by (simp add: sanitizeConfigs_def)
  then show "let cfg = cs ! i; out = sanitizeConfigs cs ! i; safePatch = SOUND_LIBRARY ! 0 in
           themeColor out = patchThemeColor safePatch
           \<and> soundId (instrument out) = Some (patchId safePatch)
           \<and> timbre (instrument out)
               = Some (case timbre (instrument cfg) of None \<Rightarrow> 0.5 | Some v \<Rightarrow> v)
           \<and> time (instrument out)
               = Some (case time (instrument cfg) of None \<Rightarrow> 0.5 | Some v \<Rightarrow> v)
           \<and> probability (instrument out)
               = Some (case probability (instrument cfg) of None \<Rightarrow> 1 | Some v \<Rightarrow> v)
           \<and> (instrument out)\<lparr>soundId := None, timbre := None, time := None, probability := None\<rparr>
               = (config safePatch)\<lparr>soundId := None, timbre := None, time := None,
                                     probability := None\<rparr>
           \<and> out\<lparr>themeColor := themeColor cfg, instrument := instrument cfg\<rparr> = cfg"
    by (simp add: sanitizeConfig_replace[OF r] Let_def)
qed

lemma legacyPhysicalConfig_invalid: "needsReplacement legacyPhysicalConfig"
  by (simp add: needsReplacement_def legacyPhysicalConfig_def patchDefaults_def)

lemma first_patch_id: "patchId (SOUND_LIBRARY ! 0) = ''ana_bass''"
  by (simp add: SOUND_LIBRARY_def createPatch_def)

theorem sanitizeConfigs_idempotent_witness:
  "needsReplacement ([legacyPhysicalConfig] ! 0)
   \<and> sanitizeConfigs (sanitizeConfigs [legacyPhysicalConfig]) = sanitizeConfigs [legacyPhysicalConfig]
   \<and> soundId (instrument (sanitizeConfigs [legacyPhysicalConfig] ! 0)) = Some ''ana_bass''
   \<and> timbre (instrument (sanitizeConfigs [legacyPhysicalConfig] ! 0)) = Some 0.9
   \<and> time (instrument (sanitizeConfigs [legacyPhysicalConfig] ! 0)) = Some 0.5
   \<and> probability (instrument (sanitizeConfigs [legacyPhysicalConfig] ! 0)) = Some 0"
proof -
  have l: "(0::nat) < length [legacyPhysicalConfig]" by simp
  have n: "needsReplacement ([legacyPhysicalConfig] ! 0)"
    using legacyPhysicalConfig_invalid by simp
  have v: "timbre (instrument legacyPhysicalConfig) = Some 0.9"
          "time (instrument legacyPhysicalConfig) = None"
          "probability (instrument legacyPhysicalConfig) = Some 0"
    by (simp_all add: legacyPhysicalConfig_def)
  from sanitizeConfigs_idempotent[of "[legacyPhysicalConfig]"] l n
  show ?thesis by (simp add: Let_def first_patch_id v)
qed

section \<open>The polyphony ceiling\<close>

lemma voicesCounted_new: "voicesCounted newAudioEngine"
  by (simp add: voicesCounted_def newAudioEngine_def MAX_POLYPHONY_def)

lemma voicesCounted_triggerDrum: "voicesCounted s \<Longrightarrow> voicesCounted (triggerDrum ty v p s)"
  by (auto simp: voicesCounted_def triggerDrum_def Let_def)

lemma voicesCounted_trigger: "voicesCounted s \<Longrightarrow> voicesCounted (trigger cfg f v p r s)"
  by (auto simp: voicesCounted_def trigger_def triggerGranular_def triggerPhysical_def
        triggerSample_def triggerSynth_def Let_def)

lemma voicesCounted_voiceEnded: "voicesCounted s \<Longrightarrow> voicesCounted (voiceEnded i s)"
  by (auto simp: voicesCounted_def voiceEnded_def)

lemma voicesCounted_engineCall: "voicesCounted s \<Longrightarrow> voicesCounted (engineCall c s)"
proof (cases c)
  case Init
  then show "voicesCounted s \<Longrightarrow> ?thesis" by (auto simp: voicesCounted_def init_def)
next
  case (UpdateVisualModulation m b h)
  then show "voicesCounted s \<Longrightarrow> ?thesis"
    by (auto simp: voicesCounted_def updateVisualModulation_def Let_def)
next
  case (SetGlobalFilter v)
  then show "voicesCounted s \<Longrightarrow> ?thesis"
    by (auto simp: voicesCounted_def setGlobalFilter_def Let_def)
next
  case (SetGlobalDelayFeedback v)
  then show "voicesCounted s \<Longrightarrow> ?thesis" by (simp add: setGlobalDelayFeedback_def)
next
  case (TriggerDrum ty v p)
  then show "voicesCounted s \<Longrightarrow> ?thesis" by (simp add: voicesCounted_triggerDrum)
next
  case (Trigger cfg f v p r)
  then show "voicesCounted s \<Longrightarrow> ?thesis" by (simp add: voicesCounted_trigger)
next
  case (VoiceEnded i)
  then show "voicesCounted s \<Longrightarrow> ?thesis" by (simp add: voicesCounted_voiceEnded)
qed

lemma voicesCounted_engineCalls: "voicesCounted s \<Longrightarrow> voicesCounted (engineCalls cs s)"
  by (induction cs arbitrary: s) (simp_all add: voicesCounted_engineCall)

lemma trigger_at_ceiling: "activeVoices s = MAX_POLYPHONY \<Longrightarrow> trigger cfg f v p r s = s"
  by (simp add: trigger_def)

lemma triggerDrum_at_ceiling: "activeVoices s = MAX_POLYPHONY \<Longrightarrow> triggerDrum ty v p s = s"
  by (simp add: triggerDrum_def)

lemma triggerDrum_count:
  "ctx s \<Longrightarrow> preAmpGain s \<Longrightarrow> activeVoices s \<le> MAX_POLYPHONY \<Longrightarrow>
   activeVoices (engineCalls (replicate n (TriggerDrum ty v p)) s)
     = min MAX_POLYPHONY (activeVoices s + int n)"
proof (induction n arbitrary: s)
  case 0
  then show ?case by simp
next
  case (Suc n)
  let ?s = "triggerDrum ty v p s"
  have c: "ctx ?s" "preAmpGain ?s" using Suc.prems by (simp_all add: triggerDrum_def Let_def)
  have a: "activeVoices ?s = min MAX_POLYPHONY (activeVoices s + 1)"
    using Suc.prems by (simp add: triggerDrum_def Let_def)
  then have "activeVoices ?s \<le> MAX_POLYPHONY" by simp
  from Suc.IH[OF c this] a show ?case by (simp add: min_def)
qed

lemma init_ready: "ctx (init newAudioEngine) \<and> preAmpGain (init newAudioEngine)
    \<and> activeVoices (init newAudioEngine) = 0"
  by (simp add: init_def newAudioEngine_def)

lemma fullEngine_count: "activeVoices fullEngine = MAX_POLYPHONY"
  using triggerDrum_count[of "init newAudioEngine" 64 Drum808 1 0] init_ready
  by (simp add: fullEngine_def MAX_POLYPHONY_def)

text \<open>
  Claim C1. After every history of engine calls from the initial engine (triggers, drum
  triggers, voice completions and parameter updates in any order) the voice counter is in
  \<open>[0, 64]\<close>. A \<open>trigger\<close> or \<open>triggerDrum\<close> call made when the counter equals the ceiling
  returns the engine unchanged: no voice is allocated, the counter is not incremented, and
  nothing is kept of the call.
\<close>

theorem polyphony_never_exceeds_ceiling:
  "0 \<le> activeVoices (engineCalls cs newAudioEngine)
   \<and> activeVoices (engineCalls cs newAudioEngine) \<le> MAX_POLYPHONY
   \<and> MAX_POLYPHONY = 64
   \<and> (activeVoices s = MAX_POLYPHONY \<longrightarrow>
        trigger cfg frequency velocity spatialPos rnd s = s
        \<and> triggerDrum ty velocity panPos s = s)"
proof -
  have "voicesCounted (engineCalls cs newAudioEngine)"
    by (rule voicesCounted_engineCalls[OF voicesCounted_new])
  then have "0 \<le> activeVoices (engineCalls cs newAudioEngine)"
    and "activeVoices (engineCalls cs newAudioEngine) \<le> MAX_POLYPHONY"
    by (simp_all add: voicesCounted_def)
  then show ?thesis
    by (simp add: trigger_at_ceiling triggerDrum_at_ceiling MAX_POLYPHONY_def)
qed

theorem polyphony_never_exceeds_ceiling_witness:
  "activeVoices fullEngine = MAX_POLYPHONY
   \<and> trigger patchDefaults 440 1 (vec 0 0) 0 fullEngine = fullEngine
   \<and> triggerDrum Drum808 1 0 fullEngine = fullEngine
   \<and> activeVoices (engineCalls [TriggerDrum Drum808 1 0] fullEngine) = 64"
proof -
  note t = polyphony_never_exceeds_ceiling[of "[]" fullEngine patchDefaults 440 1 "vec 0 0" 0 Drum808 0]
  from t fullEngine_count show ?thesis by simp
qed

section \<open>Tap tempo\<close>

lemma intervalsSum_telescope: "ts \<noteq> [] \<Longrightarrow> intervalsSum ts = last ts - hd ts"
  by (induction ts rule: intervalsSum.induct) simp_all

lemma tapBpm_range: "40 \<le> tapBpm tieUp ts \<and> tapBpm tieUp ts \<le> 240"
  by (simp add: tapBpm_def Let_def)

lemma floor_at_tie: "frac q = 1 / 2 \<Longrightarrow> \<bar>real_of_int \<lfloor>q\<rfloor> - q\<bar> \<le> 1 / 2" for q :: real
  by (simp add: frac_def)

lemma tapBpm_nearest:
  assumes "ts \<noteq> []" "real_of_int (last ts - hd ts) / real (length ts - 1) \<noteq> 0"
  shows "\<exists>b. tapBpm tieUp ts = real_of_int (max 40 (min 240 b))
             \<and> \<bar>real_of_int b - 60000 / (real_of_int (last ts - hd ts) / real (length ts - 1))\<bar>
                 \<le> 1 / 2"
proof -
  let ?q = "60000 / (real_of_int (last ts - hd ts) / real (length ts - 1))"
  let ?below = "frac ?q = 1 / 2 \<and> \<not> int (length ts - 1) dvd 2 * (last ts - hd ts) \<and> \<not> tieUp ts"
  have t: "tapBpm tieUp ts
           = real_of_int (max 40 (min 240 (if ?below then \<lfloor>?q\<rfloor> else round ?q)))"
    using assms by (simp add: tapBpm_def Let_def intervalsSum_telescope)
  show ?thesis
  proof (cases ?below)
    case True
    then have "\<bar>real_of_int \<lfloor>?q\<rfloor> - ?q\<bar> \<le> 1 / 2" by (intro floor_at_tie) simp
    moreover have "tapBpm tieUp ts = real_of_int (max 40 (min 240 \<lfloor>?q\<rfloor>))"
      using t True by simp
    ultimately show ?thesis by blast
  next
    case False
    have "\<bar>real_of_int (round ?q) - ?q\<bar> \<le> 1 / 2" by (rule of_int_round_abs_le)
    moreover have "tapBpm tieUp ts = real_of_int (max 40 (min 240 (round ?q)))"
      using t False by (simp only: if_False)
    ultimately show ?thesis by blast
  qed
qed

lemma tapBpm_off_tie:
  assumes "ts \<noteq> []" "real_of_int (last ts - hd ts) / real (length ts - 1) \<noteq> 0"
    "frac (60000 / (real_of_int (last ts - hd ts) / real (length ts - 1))) \<noteq> 1 / 2"
  shows "tapBpm tieUp ts = real_of_int (max 40 (min 240
           (round (60000 / (real_of_int (last ts - hd ts) / real (length ts - 1))))))"
  using assms by (simp add: tapBpm_def Let_def intervalsSum_telescope)

lemma tapBpm_zero_mean:
  assumes "ts \<noteq> []" "real_of_int (last ts - hd ts) / real (length ts - 1) = 0"
  shows "tapBpm tieUp ts = 240"
  using assms by (simp add: tapBpm_def Let_def intervalsSum_telescope)

lemma handleTap_taps:
  "tapTimesRef (handleTap tieUp now app) = retainedTaps now (tapTimesRef app)"
  by (simp add: handleTap_def retainedTaps_def Let_def)

lemma retainedTaps_length: "length taps0 \<le> 4 \<Longrightarrow> length (retainedTaps now taps0) \<le> 4"
  by (simp add: retainedTaps_def Let_def)

lemma shift_is_drop:
  "length ts \<le> 5 \<Longrightarrow> (if length ts > 4 then tl ts else ts) = drop (length ts - 4) ts"
proof (cases "length ts > 4")
  case True
  assume "length ts \<le> 5"
  with True have "length ts - 4 = Suc 0" by simp
  then show ?thesis using True by (simp add: drop_Suc)
next
  case False
  then show ?thesis by simp
qed

lemma retainedTaps_suffix:
  assumes "length taps0 \<le> 4"
  shows "retainedTaps now taps0 =
     (let kept = (if taps0 \<noteq> [] \<and> last taps0 \<noteq> 0 \<and> now - last taps0 > 2000
                  then [] else taps0) @ [now]
      in drop (length kept - 4) kept)"
proof -
  let ?kept = "(if taps0 \<noteq> [] \<and> last taps0 \<noteq> 0 \<and> now - last taps0 > 2000
                  then [] else taps0) @ [now]"
  have "length ?kept \<le> 5" using assms by simp
  from shift_is_drop[OF this] show ?thesis
    unfolding retainedTaps_def Let_def by simp
qed

lemma handleTap_bpm:
  "1 < length (retainedTaps now (tapTimesRef app)) \<Longrightarrow>
     appBpm (handleTap tieUp now app) = tapBpm tieUp (retainedTaps now (tapTimesRef app))
     \<and> bpm (globalSettings (handleTap tieUp now app))
         = tapBpm tieUp (retainedTaps now (tapTimesRef app))"
  by (simp add: handleTap_def retainedTaps_def Let_def)

lemma handleTap_reset:
  "tapTimesRef app \<noteq> [] \<Longrightarrow> last (tapTimesRef app) \<noteq> 0 \<Longrightarrow>
   now - last (tapTimesRef app) > 2000 \<Longrightarrow>
     handleTap tieUp now app = app\<lparr>tapTimesRef := [now]\<rparr>"
  by (simp add: handleTap_def Let_def)

lemma handleTap_single:
  "length (retainedTaps now (tapTimesRef app)) \<le> 1 \<Longrightarrow>
     handleTap tieUp now app = app\<lparr>tapTimesRef := retainedTaps now (tapTimesRef app)\<rparr>"
  by (simp add: handleTap_def retainedTaps_def Let_def)

lemma taps_at_half_second:
  "tapTimesRef app = [] \<Longrightarrow> appBpm (handleTaps tieUp [0, 500, 1000, 1500] app) = 120"
  by (simp add: handleTap_def Let_def tapBpm_def)

lemma frac_120: "frac (120 :: real) = 0"
  using frac_of_int[of 120, where 'a = real] by simp

lemma round_600_7: "round (600 / 7 :: real) = 86"
  by (rule round_unique) simp_all

lemma frac_600_7: "frac (600 / 7 :: real) = 5 / 7"
proof -
  have "\<lfloor>600 / 7 :: real\<rfloor> = 85" by (rule floor_unique) simp_all
  then show ?thesis by (simp add: frac_def)
qed

lemma frac_225_2: "frac (225 / 2 :: real) = 1 / 2 \<and> \<lfloor>225 / 2 :: real\<rfloor> = 112"
proof -
  have "\<lfloor>225 / 2 :: real\<rfloor> = 112" by (rule floor_unique) simp_all
  then show ?thesis by (simp add: frac_def)
qed

text \<open>
  Claim C8, as the code has it. Let \<open>kept\<close> be the tap history with the new tap appended,
  after the history was emptied if its last tap is non-zero and more than 2000 ms old; the
  handler retains the last up-to-4 taps of \<open>kept\<close>. With at least two retained taps the BPM
  becomes an integer nearest to \<open>60000 / mean\<close>, clamped to \<open>[40, 240]\<close>, where \<open>mean\<close> is the
  mean interval between the retained taps: an integer within \<open>1/2\<close> of the quotient, which
  is the quotient rounded whenever the quotient is not halfway between two integers (and
  the BPM is 240 if \<open>mean\<close> is 0). A tap that resets the history leaves a single retained
  tap and changes neither the BPM nor the settings. From an empty history, taps at 0, 500,
  1000 and 1500 ms give BPM 120.
\<close>

theorem handleTap_tempo:
  assumes "length (tapTimesRef app) \<le> 4"
  shows "let old = tapTimesRef app;
             stale = (old \<noteq> [] \<and> last old \<noteq> 0 \<and> now - last old > 2000);
             kept = (if stale then [] else old) @ [now];
             taps = drop (length kept - 4) kept;
             mean = real_of_int (last taps - hd taps) / real (length taps - 1);
             app' = handleTap tieUp now app
         in tapTimesRef app' = taps \<and> length taps \<le> 4
            \<and> (1 < length taps \<longrightarrow>
                  bpm (globalSettings app') = appBpm app'
                  \<and> 40 \<le> appBpm app' \<and> appBpm app' \<le> 240
                  \<and> (mean \<noteq> 0 \<longrightarrow>
                        (\<exists>b. appBpm app' = real_of_int (max 40 (min 240 b))
                             \<and> \<bar>real_of_int b - 60000 / mean\<bar> \<le> 1 / 2))
                  \<and> (mean \<noteq> 0 \<and> frac (60000 / mean) \<noteq> 1 / 2 \<longrightarrow>
                        appBpm app' = real_of_int (max 40 (min 240 (round (60000 / mean)))))
                  \<and> (mean = 0 \<longrightarrow> appBpm app' = 240))
            \<and> (stale \<longrightarrow> taps = [now] \<and> appBpm app' = appBpm app
                  \<and> globalSettings app' = globalSettings app)
            \<and> (old = [] \<longrightarrow> appBpm (handleTaps tieUp [0, 500, 1000, 1500] app) = 120)"
proof -
  define old where "old = tapTimesRef app"
  define stale where "stale \<longleftrightarrow> old \<noteq> [] \<and> last old \<noteq> 0 \<and> now - last old > 2000"
  define kept where "kept = (if stale then [] else old) @ [now]"
  define taps where "taps = drop (length kept - 4) kept"
  define mean where "mean = real_of_int (last taps - hd taps) / real (length taps - 1)"
  define app' where "app' = handleTap tieUp now app"
  have r: "retainedTaps now old = taps"
    using retainedTaps_suffix[OF assms, of now]
    by (simp add: old_def stale_def kept_def taps_def Let_def)
  have t: "tapTimesRef app' = taps"
    using handleTap_taps[of tieUp now app] r by (simp add: app'_def old_def)
  have l: "length taps \<le> 4"
    using retainedTaps_length[OF assms, of now] r by (simp add: old_def)
  have ne: "taps \<noteq> []"
    by (simp add: taps_def kept_def)
  have b: "bpm (globalSettings app') = appBpm app' \<and> 40 \<le> appBpm app' \<and> appBpm app' \<le> 240
           \<and> (mean \<noteq> 0 \<longrightarrow>
                 (\<exists>b. appBpm app' = real_of_int (max 40 (min 240 b))
                      \<and> \<bar>real_of_int b - 60000 / mean\<bar> \<le> 1 / 2))
           \<and> (mean \<noteq> 0 \<and> frac (60000 / mean) \<noteq> 1 / 2 \<longrightarrow>
                 appBpm app' = real_of_int (max 40 (min 240 (round (60000 / mean)))))
           \<and> (mean = 0 \<longrightarrow> appBpm app' = 240)" if m: "1 < length taps"
  proof -
    have a: "appBpm app' = tapBpm tieUp taps"
      and g: "bpm (globalSettings app') = tapBpm tieUp taps"
      using handleTap_bpm[of now app tieUp] r m by (simp_all add: app'_def old_def)
    have z: "mean = 0 \<longrightarrow> tapBpm tieUp taps = 240"
      using tapBpm_zero_mean[OF ne, of tieUp] by (simp add: mean_def)
    have nr: "mean \<noteq> 0 \<longrightarrow>
               (\<exists>b. tapBpm tieUp taps = real_of_int (max 40 (min 240 b))
                    \<and> \<bar>real_of_int b - 60000 / mean\<bar> \<le> 1 / 2)"
      using tapBpm_nearest[OF ne, of tieUp] by (simp add: mean_def)
    have ot: "mean \<noteq> 0 \<and> frac (60000 / mean) \<noteq> 1 / 2 \<longrightarrow>
               tapBpm tieUp taps = real_of_int (max 40 (min 240 (round (60000 / mean))))"
      using tapBpm_off_tie[OF ne, of tieUp] unfolding mean_def by blast
    show ?thesis using g z nr ot tapBpm_range[of tieUp taps] by (simp only: a)
  qed
  have s: "taps = [now] \<and> appBpm app' = appBpm app \<and> globalSettings app' = globalSettings app"
    if "stale"
  proof -
    have "handleTap tieUp now app = app\<lparr>tapTimesRef := [now]\<rparr>"
      using that by (intro handleTap_reset) (simp_all add: stale_def old_def)
    moreover have "taps = [now]" using that by (simp add: taps_def kept_def)
    ultimately show ?thesis by (simp add: app'_def)
  qed
  have e: "old = [] \<longrightarrow> appBpm (handleTaps tieUp [0, 500, 1000, 1500] app) = 120"
    using taps_at_half_second[of app tieUp] by (simp add: old_def)
  have "tapTimesRef app' = taps \<and> length taps \<le> 4
        \<and> (1 < length taps \<longrightarrow>
              bpm (globalSettings app') = appBpm app'
              \<and> 40 \<le> appBpm app' \<and> appBpm app' \<le> 240
              \<and> (mean \<noteq> 0 \<longrightarrow>
                    (\<exists>b. appBpm app' = real_of_int (max 40 (min 240 b))
                         \<and> \<bar>real_of_int b - 60000 / mean\<bar> \<le> 1 / 2))
              \<and> (mean \<noteq> 0 \<and> frac (60000 / mean) \<noteq> 1 / 2 \<longrightarrow>
                    appBpm app' = real_of_int (max 40 (min 240 (round (60000 / mean)))))
              \<and> (mean = 0 \<longrightarrow> appBpm app' = 240))
        \<and> (stale \<longrightarrow> taps = [now] \<and> appBpm app' = appBpm app
              \<and> globalSettings app' = globalSettings app)
        \<and> (old = [] \<longrightarrow> appBpm (handleTaps tieUp [0, 500, 1000, 1500] app) = 120)"
    using t l b s e by blast
  then show ?thesis
    unfolding Let_def old_def[symmetric] stale_def[symmetric] kept_def[symmetric]
      taps_def[symmetric] mean_def[symmetric] app'_def[symmetric] .
qed

theorem handleTap_tempo_witness:
  "length (tapTimesRef (initialApp\<lparr>tapTimesRef := [1000, 1500], appBpm := 90\<rparr>)) \<le> 4
   \<and> tapTimesRef (handleTap (\<lambda>ts. False) 2000
         (initialApp\<lparr>tapTimesRef := [1000, 1500], appBpm := 90\<rparr>)) = [1000, 1500, 2000]
   \<and> frac (60000 / (real_of_int (2000 - 1000) / real (3 - 1))) \<noteq> 1 / 2
   \<and> appBpm (handleTap (\<lambda>ts. False) 2000
         (initialApp\<lparr>tapTimesRef := [1000, 1500], appBpm := 90\<rparr>)) = 120
   \<and> tapTimesRef (handleTap (\<lambda>ts. False) 9000
         (initialApp\<lparr>tapTimesRef := [1000, 1500], appBpm := 90\<rparr>)) = [9000]
   \<and> appBpm (handleTap (\<lambda>ts. False) 9000
         (initialApp\<lparr>tapTimesRef := [1000, 1500], appBpm := 90\<rparr>)) = 90
   \<and> appBpm (handleTaps (\<lambda>ts. False) [0, 500, 1000, 1500] (initialApp\<lparr>appBpm := 90\<rparr>)) = 120"
proof -
  let ?a = "initialApp\<lparr>tapTimesRef := [1000, 1500], appBpm := 90\<rparr>"
  have h: "length (tapTimesRef ?a) \<le> 4" by simp
  have h0: "length (tapTimesRef (initialApp\<lparr>appBpm := 90\<rparr>)) \<le> 4"
    by (simp add: initialApp_def)
  from handleTap_tempo[OF h, where tieUp = "\<lambda>ts. False" and now = 2000]
    handleTap_tempo[OF h, where tieUp = "\<lambda>ts. False" and now = 9000]
    handleTap_tempo[OF h0, where tieUp = "\<lambda>ts. False" and now = 0] h
  show ?thesis by (simp add: Let_def initialApp_def frac_120)
qed

lemma round_225_2: "round (225 / 2 :: real) = 113"
  by (rule round_unique) simp_all

lemma taps_at_a_tie:
  "appBpm (handleTaps (\<lambda>ts. False) [1000, 1533, 2066, 2600] initialApp) = 112
   \<and> appBpm (handleTaps (\<lambda>ts. True) [1000, 1533, 2066, 2600] initialApp) = 113"
  by (simp add: handleTap_def Let_def tapBpm_def initialApp_def frac_225_2 round_225_2)

text \<open>
  Claim C8 as stated fails in two places. Taps at 1000 and 1700 ms give BPM 86, not
  \<open>60000 / 700\<close>: the quotient is rounded. After a tap at time 0 a tap at 5000 ms does not
  reset the history although the gap exceeds 2000 ms, and moves the BPM from 120 to 40.
\<close>

theorem handleTap_tempo_counterexample:
  "appBpm (handleTaps (\<lambda>ts. False) [1000, 1700] initialApp) = 86
   \<and> appBpm (handleTaps (\<lambda>ts. True) [1000, 1700] initialApp) = 86
   \<and> max 40 (min 240 (60000 / ((1700 - 1000) / 1))) \<noteq> (86::real)
   \<and> tapTimesRef (handleTaps (\<lambda>ts. False) [0, 5000] initialApp) = [0, 5000]
   \<and> appBpm initialApp = 120
   \<and> appBpm (handleTaps (\<lambda>ts. False) [0, 5000] initialApp) = 40
   \<and> appBpm (handleTaps (\<lambda>ts. True) [0, 5000] initialApp) = 40"
  by (simp add: handleTap_def Let_def tapBpm_def initialApp_def round_600_7 frac_600_7)

section \<open>Chaos modulation\<close>

lemma updateChaos_keeps_delayFeedback:
  "delayFeedback (audio (updateChaos app)) = delayFeedback (audio app)"
  by (simp add: updateChaos_def Let_def setGlobalDelayFeedback_def setGlobalFilter_def)

lemma updateChaos_sets_filter:
  assumes "chaosEnabled (globalSettings app)" "started app" "ctx (audio app)"
    "masterFilter (audio app) \<noteq> None"
  shows "\<exists>normX. 0.1 \<le> normX \<and> normX \<le> 1
           \<and> normX = max 0.1 (min 1 ((lx (lorenzUpdate (chaosRef app)) + 20) / 40))
           \<and> masterFilter (audio (updateChaos app))
               = Some (max 20 (min 22000 (exp (ln 40 + normX * (ln 20000 - ln 40)))))"
  using assms
  by (simp add: updateChaos_def Let_def setGlobalDelayFeedback_def setGlobalFilter_def)

text \<open>
  Claim C5, evaluated on the code. In the started application with chaos mode enabled, one
  iteration of the chaos loop moves the attractor to \<open>y = 0.014\<close>, whose normalised value
  is \<open>30.014 / 60\<close>, and moves the master filter to the frequency of the normalised \<open>x\<close>;
  the delay-feedback gain is 0.4 before the iteration and 0.4 after it.
\<close>

theorem updateChaos_delay_feedback_not_applied:
  "chaosEnabled (globalSettings chaosApp) \<and> started chaosApp
   \<and> ly (chaosRef (updateChaos chaosApp)) = 0.014
   \<and> max 0.1 (min 0.8 ((ly (chaosRef (updateChaos chaosApp)) + 30) / 60)) = (30.014 / 60 :: real)
   \<and> delayFeedback (audio chaosApp) = Some 0.4
   \<and> delayFeedback (audio (updateChaos chaosApp)) = Some 0.4
   \<and> masterFilter (audio chaosApp) = Some 22000
   \<and> masterFilter (audio (updateChaos chaosApp))
       = Some (max 20 (min 22000 (exp (ln 40 + 0.502375 * (ln 20000 - ln 40)))))"
  by (simp add: chaosApp_def handleStart_def initialApp_def initialSettings_def updateChaos_def
      Let_def setGlobalDelayFeedback_def setGlobalFilter_def init_def newAudioEngine_def
      lorenzUpdate_def newLorenzAttractor_def)

section \<open>Collision resolution\<close>


lemma mag_zero_iff: "mag v = 0 \<longleftrightarrow> x v = 0 \<and> y v = 0"
proof -
  have "x v * x v + y v * y v = 0 \<longleftrightarrow> x v = 0 \<and> y v = 0"
    by (simp add: sum_squares_eq_zero_iff)
  then show ?thesis by (simp add: mag_def)
qed

lemma normalize_unit:
  assumes "x v \<noteq> 0 \<or> y v \<noteq> 0"
  shows "dot (normalize v) (normalize v) = 1"
proof -
  have m: "mag v \<noteq> 0" using assms by (simp add: mag_zero_iff)
  have nn: "0 \<le> x v * x v + y v * y v" by simp
  have sq: "mag v * mag v = x v * x v + y v * y v"
    unfolding mag_def using nn by simp
  have "dot (normalize v) (normalize v) = (x v * x v + y v * y v) / (mag v * mag v)"
    using m by (simp add: normalize_def dot_def Let_def add_divide_distrib)
  also have "\<dots> = (mag v * mag v) / (mag v * mag v)" by (simp only: sq)
  also have "\<dots> = 1" using m by simp
  finally show ?thesis .
qed

lemma edgeNormal_unit:
  assumes "p1 \<noteq> (p2 :: Vector2)"
  shows "dot (edgeNormal p1 p2) (edgeNormal p1 p2) = 1"
proof -
  have "x p1 \<noteq> x p2 \<or> y p1 \<noteq> y p2" using assms by (auto intro: Vector2.equality)
  then show ?thesis
    unfolding edgeNormal_def Let_def by (intro normalize_unit) (auto simp: sub_def)
qed

lemma dot_after_push:
  "dot (sub (add p (mult n k)) q) n = dot (sub p q) n + k * dot n n"
  by (simp add: dot_def sub_def add_def mult_def algebra_simps)

lemma dot_after_reflect:
  "dot (mult (sub v (mult n (2 * c))) r) n = r * (dot v n - 2 * c * dot n n)"
  by (simp add: dot_def sub_def mult_def algebra_simps)

text \<open>
  Claim C4, for an edge with distinct end points. If the signed distance of the ball to the
  edge, measured along the edge normal, is less than its radius, the wall step for that
  edge moves the ball so that the signed distance equals the radius; if the velocity
  component along the normal is negative, the component after the step is \<open>- restitution\<close>
  times the component before, and otherwise the velocity is unchanged.
\<close>

theorem resolveEdge_reposition_and_reflect:
  assumes "vertices ! i \<noteq> vertices ! ((i + 1) mod length vertices)"
    and "dot (sub (pos ball) (vertices ! i))
           (edgeNormal (vertices ! i) (vertices ! ((i + 1) mod length vertices))) < radius ball"
  shows "let p1 = vertices ! i;
             normal = edgeNormal p1 (vertices ! ((i + 1) mod length vertices));
             ball' = fst (resolveEdge fr width height vertices i (ball, s))
         in dot (sub (pos ball') p1) normal = radius ball'
            \<and> radius ball' = radius ball
            \<and> (dot (vel ball) normal < 0 \<longrightarrow>
                  dot (vel ball') normal = - restitution (configRef fr) * dot (vel ball) normal)
            \<and> (\<not> dot (vel ball) normal < 0 \<longrightarrow> vel ball' = vel ball)"
proof -
  let ?n = "edgeNormal (vertices ! i) (vertices ! ((i + 1) mod length vertices))"
  have u: "dot ?n ?n = 1" using assms(1) by (rule edgeNormal_unit)
  show ?thesis
    using assms(2) u
    by (simp add: resolveEdge_def Let_def dot_after_push dot_after_reflect)
qed

lemma floor_edge_normal: "edgeNormal \<lparr>x = 0, y = 0\<rparr> \<lparr>x = 1, y = 0\<rparr> = \<lparr>x = 0, y = 1\<rparr>"
  by (simp add: edgeNormal_def normalize_def mag_def sub_def)

theorem resolveEdge_reposition_and_reflect_witness:
  "[\<lparr>x = 0, y = 0\<rparr>, \<lparr>x = 1, y = 0\<rparr>] ! 0 \<noteq> [\<lparr>x = 0, y = 0\<rparr>, \<lparr>x = 1, y = 0\<rparr>] ! ((0 + 1) mod 2)
   \<and> dot (sub (pos exampleBall) \<lparr>x = 0, y = 0\<rparr>) \<lparr>x = 0, y = 1\<rparr> < radius exampleBall
   \<and> dot (vel exampleBall) \<lparr>x = 0, y = 1\<rparr> = - 2
   \<and> y (pos (fst (resolveEdge exampleFrame 600 400 [\<lparr>x = 0, y = 0\<rparr>, \<lparr>x = 1, y = 0\<rparr>] 0
                    (exampleBall, exampleCanvas)))) = 6
   \<and> y (vel (fst (resolveEdge exampleFrame 600 400 [\<lparr>x = 0, y = 0\<rparr>, \<lparr>x = 1, y = 0\<rparr>] 0
                    (exampleBall, exampleCanvas)))) = 1.8"
proof -
  let ?vs = "[\<lparr>x = 0, y = 0\<rparr>, \<lparr>x = 1, y = 0\<rparr>]"
  have a: "?vs ! 0 \<noteq> ?vs ! ((0 + 1) mod length ?vs)" by simp
  have b: "dot (sub (pos exampleBall) (?vs ! 0))
             (edgeNormal (?vs ! 0) (?vs ! ((0 + 1) mod length ?vs))) < radius exampleBall"
    by (simp add: floor_edge_normal dot_def sub_def exampleBall_def)
  have r: "restitution (configRef exampleFrame) = 0.9"
    by (simp add: exampleFrame_def exampleConfig_def legacyPhysicalConfig_def)
  have e: "pos exampleBall = \<lparr>x = 20, y = 0\<rparr>" "vel exampleBall = \<lparr>x = 0, y = - 2\<rparr>"
    "radius exampleBall = 6"
    by (simp_all add: exampleBall_def)
  from resolveEdge_reposition_and_reflect[OF a b, of exampleFrame 600 400 exampleCanvas]
  show ?thesis
    by (simp add: Let_def floor_edge_normal dot_def sub_def r e)
qed

text \<open>
  Claim C4 as stated fails on an edge of length 0. On a canvas of width 0 the boundary
  polygon has radius 0 and all its vertices are the origin; \<open>normalize\<close> returns the zero
  vector for the normal, the signed distance of every ball is 0, less than its radius, and
  the step leaves the ball where it is: the distance after the step is 0, not the radius.
\<close>

theorem resolveEdge_reposition_counterexample:
  "generatePolygon 4 (min 0 400 * 0.42) zeroVector 0 ! 0 = zeroVector
   \<and> generatePolygon 4 (min 0 400 * 0.42) zeroVector 0 ! 1 = zeroVector
   \<and> dot (sub (pos exampleBall) zeroVector) (edgeNormal zeroVector zeroVector) < radius exampleBall
   \<and> dot (sub (pos (fst (resolveEdge exampleFrame 0 400
                            (generatePolygon 4 (min 0 400 * 0.42) zeroVector 0) 0
                            (exampleBall, exampleCanvas))))
               zeroVector)
          (edgeNormal zeroVector zeroVector) = 0
   \<and> radius (fst (resolveEdge exampleFrame 0 400
                    (generatePolygon 4 (min 0 400 * 0.42) zeroVector 0) 0
                    (exampleBall, exampleCanvas))) = 6"
proof -
  have g: "generatePolygon 4 (min 0 400 * 0.42) zeroVector 0
           = [zeroVector, zeroVector, zeroVector, zeroVector]"
    by (simp add: generatePolygon_def zeroVector_def upt_rec)
  have n: "edgeNormal zeroVector zeroVector = zeroVector"
    by (simp add: edgeNormal_def normalize_def mag_def sub_def zeroVector_def)
  have z: "x zeroVector = 0" "y zeroVector = 0"
    by (simp_all add: zeroVector_def)
  show ?thesis
    apply (simp only: g)
    apply (simp add: n z resolveEdge_def Let_def dot_def sub_def add_def mult_def exampleBall_def)
    done
qed

section \<open>The paused simulation\<close>

lemma decayImpacts_filter_map:
  "decayImpacts ms = filter (\<lambda>m. 0 < life m) (map (\<lambda>m. m\<lparr>life := life m - 0.05\<rparr>) ms)"
  by (induction ms) (auto simp: Let_def)

lemma decayImpacts_iterated:
  "(decayImpacts ^^ Suc n) ms
   = filter (\<lambda>m. 0 < life m) (map (\<lambda>m. m\<lparr>life := life m - 0.05 * real (Suc n)\<rparr>) ms)"
proof (induction n)
  case 0
  then show ?case by (simp add: decayImpacts_filter_map)
next
  case (Suc n)
  have step: "decayImpacts (filter (\<lambda>m. 0 < life m) (map (\<lambda>m. m\<lparr>life := life m - 0.05 * real (Suc n)\<rparr>) ks))
     = filter (\<lambda>m. 0 < life m) (map (\<lambda>m. m\<lparr>life := life m - 0.05 * real (Suc (Suc n))\<rparr>) ks)" for ks
    by (induction ks) (auto simp: Let_def field_simps)
  have "(decayImpacts ^^ Suc (Suc n)) ms = decayImpacts ((decayImpacts ^^ Suc n) ms)"
    by simp
  then show ?case by (simp only: Suc.IH step)
qed

lemma decayImpacts_empties:
  assumes "\<forall>m \<in> set ms. life m \<le> 0.05 * real n" "0 < n"
  shows "(decayImpacts ^^ n) ms = []"
proof -
  obtain k where k: "n = Suc k" using assms(2) by (cases n) simp_all
  have "filter (\<lambda>m. 0 < life m) (map (\<lambda>m. m\<lparr>life := life m - 0.05 * real (Suc k)\<rparr>) ms) = []"
    using assms(1) k by (auto simp: filter_empty_conv)
  then show ?thesis using k decayImpacts_iterated[of k ms] by simp
qed

lemma updatePhysics_paused:
  "timeScale (settingsRef fr) = 0 \<Longrightarrow>
     updatePhysics fr width height s = Some (s\<lparr>impactsRef := decayImpacts (impactsRef s)\<rparr>)"
  by (simp add: updatePhysics_def Let_def)

lemma updatePhysicsTicks_paused:
  "\<forall>t \<in> set ticks. timeScale (settingsRef (frame t)) = 0 \<Longrightarrow>
     updatePhysicsTicks ticks s
     = Some (s\<lparr>impactsRef := (decayImpacts ^^ length ticks) (impactsRef s)\<rparr>)"
proof (induction ticks arbitrary: s)
  case Nil
  then show ?case by simp
next
  case (Cons t ticks)
  have "updatePhysics (frame t) (canvasWidth t) (canvasHeight t) s
        = Some (s\<lparr>impactsRef := decayImpacts (impactsRef s)\<rparr>)"
    using Cons.prems by (simp add: updatePhysics_paused)
  moreover have "updatePhysicsTicks ticks (s\<lparr>impactsRef := decayImpacts (impactsRef s)\<rparr>)
        = Some (s\<lparr>impactsRef := (decayImpacts ^^ length ticks) (decayImpacts (impactsRef s))\<rparr>)"
    using Cons.IH[of "s\<lparr>impactsRef := decayImpacts (impactsRef s)\<rparr>"] Cons.prems by simp
  ultimately show ?case by (simp add: funpow_swap1)
qed

text \<open>
  Claim C6. If the time scale is 0 at every tick of a sequence of ticks, the sequence
  returns the state it started from with only the visual marks changed: balls and flock
  units (positions included) are the same values and the engine is untouched, so no
  impact is emitted. Each tick takes 0.05 from the life of every mark and
  removes the marks whose life is then 0 or less, keeping the order of the others; once
  \<open>0.05\<close> times the number of ticks reaches the life of every mark, no mark is left.
\<close>

theorem updatePhysics_paused_freezes:
  assumes "\<forall>t \<in> set ticks. timeScale (settingsRef (frame t)) = 0"
  shows "updatePhysicsTicks ticks s
           = Some (s\<lparr>impactsRef := (decayImpacts ^^ length ticks) (impactsRef s)\<rparr>)
         \<and> map_option balls (updatePhysicsTicks ticks s) = Some (balls s)
         \<and> map_option boids (updatePhysicsTicks ticks s) = Some (boids s)
         \<and> map_option canvasAudio (updatePhysicsTicks ticks s) = Some (canvasAudio s)
         \<and> decayImpacts (impactsRef s)
             = filter (\<lambda>m. 0 < life m) (map (\<lambda>m. m\<lparr>life := life m - 0.05\<rparr>) (impactsRef s))
         \<and> (ticks \<noteq> [] \<and> (\<forall>m \<in> set (impactsRef s). life m \<le> 0.05 * real (length ticks))
              \<longrightarrow> map_option impactsRef (updatePhysicsTicks ticks s) = Some [])"
proof -
  have r: "updatePhysicsTicks ticks s
           = Some (s\<lparr>impactsRef := (decayImpacts ^^ length ticks) (impactsRef s)\<rparr>)"
    using assms by (rule updatePhysicsTicks_paused)
  have e: "(decayImpacts ^^ length ticks) (impactsRef s) = []"
    if "ticks \<noteq> []" "\<forall>m \<in> set (impactsRef s). life m \<le> 0.05 * real (length ticks)"
    using that by (intro decayImpacts_empties) simp_all
  show ?thesis
    using e by (simp add: r decayImpacts_filter_map)
qed

lemma pausedTick_paused: "timeScale (settingsRef (frame pausedTick)) = 0"
  by (simp add: pausedTick_def)

lemma exampleCanvas_marks:
  "impactsRef exampleCanvas
   = [\<lparr>impactPos = zeroVector, life = 0.08, impactRadius = 5, isGhost = False\<rparr>]"
  by (simp add: exampleCanvas_def)

theorem updatePhysics_paused_freezes_witness:
  "timeScale (settingsRef (frame pausedTick)) = 0
   \<and> map_option balls (updatePhysicsTicks [pausedTick, pausedTick] exampleCanvas)
       = Some [exampleBall]
   \<and> map_option impactsRef (updatePhysicsTicks [pausedTick] exampleCanvas)
       = Some [\<lparr>impactPos = zeroVector, life = 0.03, impactRadius = 5, isGhost = False\<rparr>]
   \<and> map_option impactsRef (updatePhysicsTicks [pausedTick, pausedTick] exampleCanvas) = Some []"
proof -
  have h1: "\<forall>t \<in> set [pausedTick]. timeScale (settingsRef (frame t)) = 0"
    and h2: "\<forall>t \<in> set [pausedTick, pausedTick]. timeScale (settingsRef (frame t)) = 0"
    by (simp_all add: pausedTick_paused)
  have b: "balls exampleCanvas = [exampleBall]" by (simp add: exampleCanvas_def)
  from updatePhysics_paused_freezes[OF h1, of exampleCanvas]
    updatePhysics_paused_freezes[OF h2, of exampleCanvas] pausedTick_paused
  show ?thesis
    by (simp add: exampleCanvas_marks b Let_def)
qed

section \<open>The probability gate\<close>

lemma handleImpact_mark:
  "impactsRef (handleImpact fr p speed wallIndex width height ty s)
   = impactsRef s @ [\<lparr>impactPos = p, life = 1,
                      impactRadius = (if ty = BallImpact then 5 + speed * 1.5 else 3),
                      isGhost = (gateProbability fr < mathRandom fr (randomCalls s))\<rparr>]"
  by (simp add: handleImpact_def Let_def gateProbability_def not_le)

lemma handleImpact_suppressed:
  "gateProbability fr < mathRandom fr (randomCalls s) \<Longrightarrow>
   handleImpact fr p speed wallIndex width height ty s
   = s\<lparr>randomCalls := Suc (randomCalls s),
        impactsRef := impactsRef s @
          [\<lparr>impactPos = p, life = 1,
            impactRadius = (if ty = BallImpact then 5 + speed * 1.5 else 3),
            isGhost = True\<rparr>]\<rparr>"
  by (simp add: handleImpact_def Let_def gateProbability_def not_le)

lemma trigger_allocates:
  assumes "ctx e" "preAmpGain e" "activeVoices e < MAX_POLYPHONY" "sourceType cfg \<noteq> Some Physical"
  shows "activeVoices (trigger cfg f v sp r e) = activeVoices e + 1
         \<and> length (voices (trigger cfg f v sp r e)) = Suc (length (voices e))"
  using assms
  by (simp add: trigger_def triggerGranular_def triggerSample_def triggerSynth_def Let_def)

lemma handleImpact_ball_audio:
  assumes "mathRandom fr (randomCalls s) \<le> gateProbability fr" "isPlaying (settingsRef fr)"
    "0 < volumeRef fr"
  shows "\<exists>f v sp r. canvasAudio (handleImpact fr p speed wallIndex width height BallImpact s)
           = trigger (instrument (configRef fr)) f v sp r (canvasAudio s)"
  using assms
  by (auto simp: handleImpact_def Let_def gateProbability_def)

lemma avoidBall_near:
  assumes "mag (sub (boidPos boid) (pos ball)) < radius ball + 15"
    "0.95 < mathRandom fr (randomCalls s)" "isPlaying (settingsRef fr)"
  shows "snd (avoidBall fr width height ball (boid, s))
         = s\<lparr>randomCalls := Suc (randomCalls s),
              canvasAudio :=
                triggerDrum Drum808 (volumeRef fr * 0.8)
                  (clampUnit (x (boidPos boid) / (min width height * 0.42))) (canvasAudio s),
              impactsRef := impactsRef s @
                [\<lparr>impactPos = boidPos boid, life = 0.5, impactRadius = 2, isGhost = False\<rparr>]\<rparr>"
  using assms by (simp add: avoidBall_def Let_def)

lemma triggerDrum_allocates:
  assumes "ctx e" "preAmpGain e" "activeVoices e < MAX_POLYPHONY"
  shows "activeVoices (triggerDrum ty v pn e) = activeVoices e + 1
         \<and> length (voices (triggerDrum ty v pn e)) = Suc (length (voices e))"
  using assms by (simp add: triggerDrum_def Let_def)

lemma sqrt_25: "sqrt 25 = 5"
  by (rule real_sqrt_unique) simp_all

lemma nearBoid_distance: "mag (sub (boidPos nearBoid) (pos exampleBall)) = 5"
  by (simp add: mag_def sub_def nearBoid_def exampleBall_def sqrt_25)

lemma exampleCanvas_engine:
  "ctx (canvasAudio exampleCanvas) \<and> preAmpGain (canvasAudio exampleCanvas)
   \<and> activeVoices (canvasAudio exampleCanvas) = 0 \<and> voices (canvasAudio exampleCanvas) = []
   \<and> randomCalls exampleCanvas = 0"
  by (simp add: exampleCanvas_def init_def newAudioEngine_def)

lemma exampleFrame_gate:
  "gateProbability exampleFrame = 1 \<and> mathRandom exampleFrame 0 = 0.5
   \<and> isPlaying (settingsRef exampleFrame) \<and> volumeRef exampleFrame = 1
   \<and> sourceType (instrument (configRef exampleFrame)) = Some Synth"
  by (simp add: gateProbability_def exampleFrame_def exampleConfig_def patchDefaults_def
      initialSettings_def)

lemma silentFrame_gate:
  "gateProbability silentFrame = 0 \<and> mathRandom silentFrame 0 = 0.5"
  by (simp add: gateProbability_def silentFrame_def exampleFrame_def)

lemma silentFrameHighSample_gate:
  "gateProbability silentFrameHighSample = 0 \<and> mathRandom silentFrameHighSample 0 = 0.99
   \<and> isPlaying (settingsRef silentFrameHighSample)"
  by (simp add: gateProbability_def silentFrameHighSample_def silentFrame_def exampleFrame_def
      initialSettings_def)

lemma nearBoid_in_reach:
  "mag (sub (boidPos nearBoid) (pos exampleBall)) < radius exampleBall + 15"
proof -
  have "radius exampleBall = 6" by (simp add: exampleBall_def)
  then show ?thesis by (simp only: nearBoid_distance)
qed

text \<open>
  Claim C7, as the code has it. Every impact passed to \<open>handleImpact\<close> (a ball hitting a
  wall, a flock unit crossing the boundary) draws one sample and appends one visual mark,
  a ghost exactly when the sample exceeds the instrument's probability; a suppressed impact
  changes nothing but the marks and the count of samples drawn, so it allocates no voice.
  With probability 0 every such impact whose sample is positive is suppressed. With
  probability 1 no such impact is suppressed, and a ball impact allocates one voice when
  playback is on, the volume is positive, the engine is initialised, the instrument is not
  a physical model and the voice counter is below the ceiling. The drum of a flock unit
  near a ball does not pass through \<open>handleImpact\<close>: whatever the probability, when its
  own sample exceeds 0.95 and playback is on it appends a mark that is no ghost and calls
  \<open>triggerDrum\<close>, which allocates a voice on an initialised engine below the ceiling.
\<close>

theorem handleImpact_probability_gate:
  "let prob = gateProbability fr;
       sample = mathRandom fr (randomCalls s);
       e = canvasAudio s;
       s' = handleImpact fr p speed wallIndex width height ty s;
       e' = canvasAudio s'
   in length (impactsRef s') = Suc (length (impactsRef s))
      \<and> butlast (impactsRef s') = impactsRef s
      \<and> isGhost (last (impactsRef s')) = (prob < sample)
      \<and> (prob < sample \<longrightarrow>
            e' = e \<and> s' = s\<lparr>randomCalls := Suc (randomCalls s), impactsRef := impactsRef s'\<rparr>)
      \<and> (prob = 0 \<and> 0 < sample \<longrightarrow> isGhost (last (impactsRef s')) \<and> e' = e)
      \<and> (prob = 1 \<and> sample < 1 \<longrightarrow>
            \<not> isGhost (last (impactsRef s'))
            \<and> (ty = BallImpact \<and> isPlaying (settingsRef fr) \<and> 0 < volumeRef fr
               \<and> ctx e \<and> preAmpGain e
               \<and> sourceType (instrument (configRef fr)) \<noteq> Some Physical
               \<and> activeVoices e < MAX_POLYPHONY
               \<longrightarrow> activeVoices e' = activeVoices e + 1
                   \<and> length (voices e') = Suc (length (voices e))))
      \<and> (mag (sub (boidPos boid) (pos ball)) < radius ball + 15 \<and> 0.95 < sample
           \<and> isPlaying (settingsRef fr) \<longrightarrow>
            (let s2 = snd (avoidBall fr width height ball (boid, s)) in
               butlast (impactsRef s2) = impactsRef s
               \<and> \<not> isGhost (last (impactsRef s2))
               \<and> canvasAudio s2
                   = triggerDrum Drum808 (volumeRef fr * 0.8)
                       (clampUnit (x (boidPos boid) / (min width height * 0.42))) e
               \<and> (ctx e \<and> preAmpGain e \<and> activeVoices e < MAX_POLYPHONY \<longrightarrow>
                     activeVoices (canvasAudio s2) = activeVoices e + 1)))"
proof -
  define prob where "prob = gateProbability fr"
  define sample where "sample = mathRandom fr (randomCalls s)"
  define s' where "s' = handleImpact fr p speed wallIndex width height ty s"
  have m: "impactsRef s' = impactsRef s @ [\<lparr>impactPos = p, life = 1,
                      impactRadius = (if ty = BallImpact then 5 + speed * 1.5 else 3),
                      isGhost = (prob < sample)\<rparr>]"
    unfolding s'_def prob_def sample_def by (rule handleImpact_mark)
  have g: "canvasAudio s' = canvasAudio s
           \<and> s' = s\<lparr>randomCalls := Suc (randomCalls s), impactsRef := impactsRef s'\<rparr>"
    if "prob < sample"
    using that handleImpact_suppressed[of fr s p speed wallIndex width height ty]
    by (simp add: s'_def prob_def sample_def)
  have v: "activeVoices (canvasAudio s') = activeVoices (canvasAudio s) + 1
           \<and> length (voices (canvasAudio s')) = Suc (length (voices (canvasAudio s)))"
    if h1: "sample \<le> prob" and h2: "ty = BallImpact" and h3: "isPlaying (settingsRef fr)"
      and h4: "0 < volumeRef fr" and h5: "ctx (canvasAudio s)" and h6: "preAmpGain (canvasAudio s)"
      and h7: "sourceType (instrument (configRef fr)) \<noteq> Some Physical"
      and h8: "activeVoices (canvasAudio s) < MAX_POLYPHONY"
  proof -
    have "mathRandom fr (randomCalls s) \<le> gateProbability fr"
      using h1 by (simp add: prob_def sample_def)
    from handleImpact_ball_audio[OF this h3 h4, of p speed wallIndex width height]
    obtain f v sp r where "canvasAudio s'
        = trigger (instrument (configRef fr)) f v sp r (canvasAudio s)"
      unfolding s'_def h2 by blast
    then show ?thesis using trigger_allocates[OF h5 h6 h8 h7] by simp
  qed
  have x: "butlast (impactsRef s2) = impactsRef s
           \<and> \<not> isGhost (last (impactsRef s2))
           \<and> canvasAudio s2
               = triggerDrum Drum808 (volumeRef fr * 0.8)
                   (clampUnit (x (boidPos boid) / (min width height * 0.42))) (canvasAudio s)
           \<and> (ctx (canvasAudio s) \<and> preAmpGain (canvasAudio s)
                \<and> activeVoices (canvasAudio s) < MAX_POLYPHONY \<longrightarrow>
                 activeVoices (canvasAudio s2) = activeVoices (canvasAudio s) + 1)"
    if n1: "mag (sub (boidPos boid) (pos ball)) < radius ball + 15" and n2: "0.95 < sample"
      and n3: "isPlaying (settingsRef fr)"
      and s2: "s2 = snd (avoidBall fr width height ball (boid, s))" for s2
  proof -
    have "0.95 < mathRandom fr (randomCalls s)" using n2 by (simp add: sample_def)
    from avoidBall_near[OF n1 this n3, of width height] show ?thesis
      by (simp add: s2 triggerDrum_allocates)
  qed
  have "length (impactsRef s') = Suc (length (impactsRef s))
      \<and> butlast (impactsRef s') = impactsRef s
      \<and> isGhost (last (impactsRef s')) = (prob < sample)
      \<and> (prob < sample \<longrightarrow>
            canvasAudio s' = canvasAudio s
            \<and> s' = s\<lparr>randomCalls := Suc (randomCalls s), impactsRef := impactsRef s'\<rparr>)
      \<and> (prob = 0 \<and> 0 < sample \<longrightarrow>
            isGhost (last (impactsRef s')) \<and> canvasAudio s' = canvasAudio s)
      \<and> (prob = 1 \<and> sample < 1 \<longrightarrow>
            \<not> isGhost (last (impactsRef s'))
            \<and> (ty = BallImpact \<and> isPlaying (settingsRef fr) \<and> 0 < volumeRef fr
               \<and> ctx (canvasAudio s) \<and> preAmpGain (canvasAudio s)
               \<and> sourceType (instrument (configRef fr)) \<noteq> Some Physical
               \<and> activeVoices (canvasAudio s) < MAX_POLYPHONY
               \<longrightarrow> activeVoices (canvasAudio s') = activeVoices (canvasAudio s) + 1
                   \<and> length (voices (canvasAudio s')) = Suc (length (voices (canvasAudio s)))))"
    using g v by (auto simp: m)
  moreover have "mag (sub (boidPos boid) (pos ball)) < radius ball + 15 \<and> 0.95 < sample
           \<and> isPlaying (settingsRef fr) \<longrightarrow>
            (let s2 = snd (avoidBall fr width height ball (boid, s)) in
               butlast (impactsRef s2) = impactsRef s
               \<and> \<not> isGhost (last (impactsRef s2))
               \<and> canvasAudio s2
                   = triggerDrum Drum808 (volumeRef fr * 0.8)
                       (clampUnit (x (boidPos boid) / (min width height * 0.42))) (canvasAudio s)
               \<and> (ctx (canvasAudio s) \<and> preAmpGain (canvasAudio s)
                    \<and> activeVoices (canvasAudio s) < MAX_POLYPHONY \<longrightarrow>
                     activeVoices (canvasAudio s2) = activeVoices (canvasAudio s) + 1))"
    using x unfolding Let_def by blast
  ultimately show ?thesis
    unfolding Let_def prob_def[symmetric] sample_def[symmetric] s'_def[symmetric] by blast
qed

theorem handleImpact_probability_gate_witness:
  "gateProbability exampleFrame = 1
   \<and> mathRandom exampleFrame (randomCalls exampleCanvas) < 1
   \<and> \<not> isGhost (last (impactsRef
          (handleImpact exampleFrame zeroVector 3 0 600 400 BallImpact exampleCanvas)))
   \<and> activeVoices (canvasAudio
          (handleImpact exampleFrame zeroVector 3 0 600 400 BallImpact exampleCanvas)) = 1
   \<and> gateProbability silentFrame = 0
   \<and> 0 < mathRandom silentFrame (randomCalls exampleCanvas)
   \<and> isGhost (last (impactsRef
          (handleImpact silentFrame zeroVector 3 0 600 400 BallImpact exampleCanvas)))
   \<and> canvasAudio (handleImpact silentFrame zeroVector 3 0 600 400 BallImpact exampleCanvas)
       = canvasAudio exampleCanvas
   \<and> mag (sub (boidPos nearBoid) (pos exampleBall)) < radius exampleBall + 15
   \<and> 0.95 < mathRandom silentFrameHighSample (randomCalls exampleCanvas)
   \<and> isPlaying (settingsRef silentFrameHighSample)
   \<and> activeVoices (canvasAudio
          (snd (avoidBall silentFrameHighSample 600 400 exampleBall (nearBoid, exampleCanvas))))
       = 1"
proof -
  note a = handleImpact_probability_gate[where fr = exampleFrame and s = exampleCanvas
      and p = zeroVector and speed = 3 and wallIndex = 0 and width = 600 and height = 400
      and ty = BallImpact and boid = nearBoid and ball = exampleBall]
  note b = handleImpact_probability_gate[where fr = silentFrame and s = exampleCanvas
      and p = zeroVector and speed = 3 and wallIndex = 0 and width = 600 and height = 400
      and ty = BallImpact and boid = nearBoid and ball = exampleBall]
  note c = handleImpact_probability_gate[where fr = silentFrameHighSample and s = exampleCanvas
      and p = zeroVector and speed = 3 and wallIndex = 0 and width = 600 and height = 400
      and ty = BallImpact and boid = nearBoid and ball = exampleBall]
  from a b c nearBoid_in_reach show ?thesis
    by (simp add: Let_def exampleCanvas_engine exampleFrame_gate silentFrame_gate
        silentFrameHighSample_gate triggerDrum_allocates MAX_POLYPHONY_def)
qed

text \<open>
  Claim C7 as stated fails in three places. With probability 1, playback switched off and
  no voice sounding, a ball impact is not suppressed (its mark is no ghost) and yet
  allocates no voice. With probability 0 and a sample equal to 0 the impact is not
  suppressed and allocates a voice. With probability 0 and every sample 0.99, a flock unit
  at distance 5 from a ball triggers its drum: a mark that is no ghost and a voice.
\<close>

theorem handleImpact_probability_gate_counterexample:
  "gateProbability stoppedFrame = 1
   \<and> activeVoices (canvasAudio exampleCanvas) = 0
   \<and> \<not> isGhost (last (impactsRef
          (handleImpact stoppedFrame zeroVector 3 0 600 400 BallImpact exampleCanvas)))
   \<and> voices (canvasAudio
          (handleImpact stoppedFrame zeroVector 3 0 600 400 BallImpact exampleCanvas)) = []
   \<and> gateProbability silentFrameZeroSample = 0
   \<and> mathRandom silentFrameZeroSample (randomCalls exampleCanvas) = 0
   \<and> \<not> isGhost (last (impactsRef
          (handleImpact silentFrameZeroSample zeroVector 3 0 600 400 BallImpact exampleCanvas)))
   \<and> activeVoices (canvasAudio
          (handleImpact silentFrameZeroSample zeroVector 3 0 600 400 BallImpact exampleCanvas))
       = 1
   \<and> gateProbability silentFrameHighSample = 0
   \<and> mathRandom silentFrameHighSample (randomCalls exampleCanvas) = 0.99
   \<and> \<not> isGhost (last (impactsRef
          (snd (avoidBall silentFrameHighSample 600 400 exampleBall (nearBoid, exampleCanvas)))))
   \<and> activeVoices (canvasAudio
          (snd (avoidBall silentFrameHighSample 600 400 exampleBall (nearBoid, exampleCanvas))))
       = 1"
proof -
  have s: "gateProbability stoppedFrame = 1 \<and> \<not> isPlaying (settingsRef stoppedFrame)
           \<and> mathRandom stoppedFrame 0 = 0.5"
    by (simp add: gateProbability_def stoppedFrame_def exampleFrame_def exampleConfig_def
        patchDefaults_def)
  have z: "gateProbability silentFrameZeroSample = 0 \<and> mathRandom silentFrameZeroSample 0 = 0
           \<and> isPlaying (settingsRef silentFrameZeroSample) \<and> volumeRef silentFrameZeroSample = 1
           \<and> sourceType (instrument (configRef silentFrameZeroSample)) = Some Synth"
    by (simp add: gateProbability_def silentFrameZeroSample_def silentFrame_def exampleFrame_def
        exampleConfig_def patchDefaults_def initialSettings_def)
  have c1: "canvasAudio (handleImpact stoppedFrame zeroVector 3 0 600 400 BallImpact exampleCanvas)
            = canvasAudio exampleCanvas"
    using s by (simp add: handleImpact_def Let_def gateProbability_def exampleCanvas_engine)
  obtain f v sp r where
    "canvasAudio (handleImpact silentFrameZeroSample zeroVector 3 0 600 400 BallImpact exampleCanvas)
     = trigger (instrument (configRef silentFrameZeroSample)) f v sp r (canvasAudio exampleCanvas)"
    using handleImpact_ball_audio[of silentFrameZeroSample exampleCanvas zeroVector 3 0 600 400] z
    by (auto simp: exampleCanvas_engine)
  then have c2: "activeVoices (canvasAudio
          (handleImpact silentFrameZeroSample zeroVector 3 0 600 400 BallImpact exampleCanvas)) = 1"
    using trigger_allocates[of "canvasAudio exampleCanvas"
        "instrument (configRef silentFrameZeroSample)" f v sp r] z exampleCanvas_engine
    by (simp add: MAX_POLYPHONY_def)
  note hs = silentFrameHighSample_gate
  note n1 = nearBoid_in_reach
  have n2: "0.95 < mathRandom silentFrameHighSample (randomCalls exampleCanvas)"
    using hs by (simp add: exampleCanvas_engine)
  have c3: "\<not> isGhost (last (impactsRef
               (snd (avoidBall silentFrameHighSample 600 400 exampleBall (nearBoid, exampleCanvas)))))
            \<and> activeVoices (canvasAudio
               (snd (avoidBall silentFrameHighSample 600 400 exampleBall (nearBoid, exampleCanvas))))
              = 1"
    using avoidBall_near[OF n1 n2, of 600 400] hs
      triggerDrum_allocates[of "canvasAudio exampleCanvas" Drum808] exampleCanvas_engine
    by (simp add: MAX_POLYPHONY_def)
  show ?thesis
    using s z c1 c2 c3 hs by (simp add: handleImpact_mark exampleCanvas_engine)
qed

end
